theory Spec2Isabelle
  imports Complex_Main "HOL-Library.Multiset"
begin

section \<open>Strings of the JavaScript runtime\<close>

text \<open>
  A JavaScript string is modelled as a \<^typ>\<open>string\<close> whose characters are the code
  points below 256. \<open>String.prototype.trim\<close> and the regular expression class \<open>\s\<close>
  use the same set of white space; in this range it is TAB, LF, VT, FF, CR, SPACE and
  NBSP. The JSON grammar accepts only TAB, LF, CR and SPACE around a value.
\<close>

definition is_space :: "char \<Rightarrow> bool" where
  "is_space c = (c \<in> set [CHR 0x09, CHR 0x0A, CHR 0x0B, CHR 0x0C, CHR 0x0D, CHR 0x20, CHR 0xA0])"

definition json_ws :: "char \<Rightarrow> bool" where
  "json_ws c = (c \<in> set [CHR 0x09, CHR 0x0A, CHR 0x0D, CHR 0x20])"

definition trim :: "string \<Rightarrow> string" where
  "trim s = rev (dropWhile is_space (rev (dropWhile is_space s)))"

definition startsWith :: "string \<Rightarrow> string \<Rightarrow> bool" where
  "startsWith s lit = (take (length lit) s = lit)"

text \<open>
  \<open>s.replace(/LIT\s*/g, '')\<close> for a literal \<open>LIT\<close>: the text is scanned from the left;
  where the literal stands it is removed together with the longest run of white space
  after it, and the scan goes on behind the match.
\<close>

function replace_g :: "string \<Rightarrow> string \<Rightarrow> string" where
  "replace_g lit s =
     (if lit = [] \<or> s = [] then s
      else if startsWith s lit
        then replace_g lit (dropWhile is_space (drop (length lit) s))
        else hd s # replace_g lit (tl s))"
  by pat_completeness auto
termination
proof (relation "measure (\<lambda>(lit, s). length s)")
  show "wf (measure (\<lambda>(lit, s). length s))" by simp
next
  fix lit s :: string
  assume "\<not> (lit = [] \<or> s = [])"
  then have "length (drop (length lit) s) < length s" by simp
  moreover have "length (dropWhile is_space (drop (length lit) s)) \<le> length (drop (length lit) s)"
    by (rule length_dropWhile_le)
  ultimately show "((lit, dropWhile is_space (drop (length lit) s)), (lit, s))
      \<in> measure (\<lambda>(lit, s). length s)"
    by simp
next
  fix lit s :: string
  assume "\<not> (lit = [] \<or> s = [])"
  then show "((lit, tl s), (lit, s)) \<in> measure (\<lambda>(lit, s). length s)"
    by (cases s) simp_all
qed

declare replace_g.simps [simp del]

definition fence :: string where
  "fence = [CHR 0x60, CHR 0x60, CHR 0x60]"

definition fence_json :: string where
  "fence_json = fence @ ''json''"

section \<open>JSON values\<close>

text \<open>
  A number that \<open>JSON.parse\<close> returns is a finite double or, for a literal out of range
  such as \<open>1e999\<close>, an infinity; never NaN. \<open>Math.min\<close> and \<open>Math.max\<close> only compare,
  so a finite number is modelled by the rational it denotes.
\<close>

datatype jsnum = NegInf | Fin rat | PosInf

fun num_le :: "jsnum \<Rightarrow> jsnum \<Rightarrow> bool" where
  "num_le NegInf _ = True"
| "num_le _ PosInf = True"
| "num_le (Fin a) (Fin b) = (a \<le> b)"
| "num_le _ _ = False"

definition Math_min :: "jsnum \<Rightarrow> jsnum \<Rightarrow> jsnum" where
  "Math_min a b = (if num_le a b then a else b)"

definition Math_max :: "jsnum \<Rightarrow> jsnum \<Rightarrow> jsnum" where
  "Math_max a b = (if num_le a b then b else a)"

datatype json =
    JNull
  | JBool bool
  | JNum jsnum
  | JStr string
  | JArr "json list"
  | JObj "(string \<times> json) list"

text \<open>Property access \<open>v.key\<close> on a parsed value other than \<open>null\<close>; \<open>None\<close> is \<open>undefined\<close>.\<close>

fun get_prop :: "json \<Rightarrow> string \<Rightarrow> json option" where
  "get_prop (JObj kvs) k = map_of kvs k"
| "get_prop _ k = None"

text \<open>JavaScript truthiness of a property that may be \<open>undefined\<close>.\<close>

fun truthy :: "json option \<Rightarrow> bool" where
  "truthy None = False"
| "truthy (Some JNull) = False"
| "truthy (Some (JBool b)) = b"
| "truthy (Some (JNum n)) = (n \<noteq> Fin 0)"
| "truthy (Some (JStr s)) = (s \<noteq> [])"
| "truthy (Some (JArr _)) = True"
| "truthy (Some (JObj _)) = True"

text \<open>
  \<open>JSON.parse\<close> belongs to the runtime. A JSON text is a value with JSON white space
  around it, so the builtin is the runtime's value grammar \<open>pv\<close> (a parameter: \<open>None\<close> is
  a \<open>SyntaxError\<close>) applied to the text without that white space.
\<close>

definition json_trim :: "string \<Rightarrow> string" where
  "json_trim s = rev (dropWhile json_ws (rev (dropWhile json_ws s)))"

definition JSON_parse :: "(string \<Rightarrow> json option) \<Rightarrow> string \<Rightarrow> json option" where
  "JSON_parse pv s = pv (json_trim s)"

text \<open>
  A reference value grammar for the fragment of JSON that the examples of this theory
  use: objects, strings without escape sequences, integer literals and the three
  keywords. It is \<open>None\<close> outside the fragment: on arrays and escape sequences, and on
  literals with a fraction, an exponent or more than 15 digits, whose value in the
  runtime is a rounded double. It instantiates \<open>pv\<close> in closed examples only; the
  general statements hold for every \<open>pv\<close>. An object keeps the last of several equal
  keys, as the runtime does.
\<close>

definition is_digit :: "char \<Rightarrow> bool" where
  "is_digit c = (c \<in> set ''0123456789'')"

definition digits_value :: "string \<Rightarrow> nat" where
  "digits_value ds = foldl (\<lambda>n d. 10 * n + (of_char d - 48)) 0 ds"

fun string_body :: "string \<Rightarrow> (string \<times> string) option" where
  "string_body [] = None"
| "string_body (c # cs) =
     (if c = CHR 0x22 then Some ([], cs)
      else if c = CHR 0x5C \<or> (of_char c :: nat) < 32 then None
      else (case string_body cs of None \<Rightarrow> None | Some (s, r) \<Rightarrow> Some (c # s, r)))"

definition integer_literal :: "string \<Rightarrow> (json \<times> string) option" where
  "integer_literal s =
     (let neg = (s \<noteq> [] \<and> hd s = CHR ''-'');
          body = (if neg then tl s else s);
          ds = takeWhile is_digit body;
          r = dropWhile is_digit body
      in if ds = [] \<or> (length ds > 1 \<and> hd ds = CHR ''0'') then None
         else if r \<noteq> [] \<and> hd r \<in> set ''.eE'' then None
         else if length ds > 15 then None
         else Some (JNum (Fin (if neg then - of_nat (digits_value ds) else of_nat (digits_value ds))), r))"

fun value_fuel :: "nat \<Rightarrow> string \<Rightarrow> (json \<times> string) option"
  and members_fuel :: "nat \<Rightarrow> string \<Rightarrow> ((string \<times> json) list \<times> string) option" where
  "value_fuel 0 s = None"
| "value_fuel (Suc n) s =
     (if s = [] then None
      else if hd s = CHR ''{'' then
        (let r = dropWhile json_ws (tl s) in
         if r \<noteq> [] \<and> hd r = CHR ''}'' then Some (JObj [], tl r)
         else (case members_fuel n r of None \<Rightarrow> None | Some (kvs, r') \<Rightarrow> Some (JObj (rev kvs), r')))
      else if hd s = CHR 0x22 then
        (case string_body (tl s) of None \<Rightarrow> None | Some (t, r) \<Rightarrow> Some (JStr t, r))
      else if startsWith s ''true'' then Some (JBool True, drop 4 s)
      else if startsWith s ''false'' then Some (JBool False, drop 5 s)
      else if startsWith s ''null'' then Some (JNull, drop 4 s)
      else integer_literal s)"
| "members_fuel 0 s = None"
| "members_fuel (Suc n) s =
     (if s = [] \<or> hd s \<noteq> CHR 0x22 then None
      else (case string_body (tl s) of None \<Rightarrow> None
        | Some (k, r) \<Rightarrow>
            (let r1 = dropWhile json_ws r in
             if r1 = [] \<or> hd r1 \<noteq> CHR '':'' then None
             else (case value_fuel n (dropWhile json_ws (tl r1)) of None \<Rightarrow> None
               | Some (v, r2) \<Rightarrow>
                   (let r3 = dropWhile json_ws r2 in
                    if r3 = [] then None
                    else if hd r3 = CHR ''}'' then Some ([(k, v)], tl r3)
                    else if hd r3 = CHR '','' then
                      (case members_fuel n (dropWhile json_ws (tl r3)) of None \<Rightarrow> None
                       | Some (kvs, r4) \<Rightarrow> Some ((k, v) # kvs, r4))
                    else None)))))"

definition json_value :: "string \<Rightarrow> json option" where
  "json_value s = (case value_fuel (length s) s of Some (v, []) \<Rightarrow> Some v | _ \<Rightarrow> None)"

section \<open>The store\<close>

text \<open>
  Modelled from the spec: the \<open>Conversation\<close> and \<open>Prompt\<close> models (\<open>../models\<close>) are not
  among the sources. A row has the fields the controller writes and reads and the
  creation time of the spec's data model. \<open>SentimentAnalysis\<close> follows its model file.
  A table is the list of its rows in storage order. Creating a row appends it; its
  identifier (when the caller gives none) and its creation time come from the
  environment. For \<open>Conversation\<close> and \<open>Prompt\<close>, whose declarations are absent, storage
  failures are not modelled. For \<open>SentimentAnalysis\<close> the declared columns decide: see
  \<open>SentimentAnalysis_create\<close> below.
\<close>

record conversation =
  conv_id :: string
  conv_createdAt :: nat

record prompt_row =
  prompt_id :: string
  prompt_text :: string
  prompt_response :: string
  prompt_model :: string
  prompt_stream :: bool
  prompt_ConversationId :: string
  prompt_createdAt :: nat

record sentiment_row =
  sentiment_id :: string
  sentiment_text :: string
  sentiment_score :: jsnum
  sentiment_label :: json
  sentiment_model :: string
  resposta_completa :: string
  sentiment_createdAt :: nat

record store =
  Conversations :: "conversation list"
  Prompts :: "prompt_row list"
  SentimentAnalyses :: "sentiment_row list"

section \<open>The environment of a request\<close>

text \<open>
  The answer of the inference server to the one-shot call: the call throws (connection
  error, non-success status, timeout), or it returns a body whose \<open>response\<close> field is a
  string or is not one.
\<close>

datatype reply = Unavailable | Replied "string option"

text \<open>
  A chunk of the streamed answer after \<open>JSON.parse\<close>: a syntax error, or an object of the
  server's protocol with an optional text \<open>response\<close> and the flag \<open>done\<close> (absent is false).
\<close>

datatype parsedChunk = SyntaxError | Parsed (chunk_response: "string option") (chunk_done: bool)

text \<open>
  What the event loop dispatches during a streaming session, in order: a \<open>data\<close> event
  of the upstream, its \<open>error\<close> event, or the settling of the oldest pending
  \<open>prompt.update\<close>. Updates still pending when the list is exhausted settle afterwards.
\<close>

datatype loop_event = Data parsedChunk | StreamError | UpdateSettled

datatype stream_outcome = Refused | Stream "loop_event list"

text \<open>
  Everything a request takes from outside the controller: the configured default model,
  the validator \<open>validateUUID\<close> (\<open>../middleware/validators\<close> is not among the sources, so
  it is a parameter), the inference server as a function of the model and the prompt
  posted to it, the value grammar of \<open>JSON.parse\<close>, the identifiers the storage layer
  generates and the clock. The database behind \<open>SentimentAnalysis\<close> is not among the
  sources either: whether it takes a row (the widths \<open>STRING(20)\<close>, \<open>STRING(100)\<close> and
  the conversion of a value that is no string are its to enforce), what its
  \<open>DECIMAL(4,2)\<close> column holds for a score, and whether \<open>create\<close> hands back the values
  as stored (an insert that returns the row) or as given, are parameters.
\<close>

record env =
  DEFAULT_OLLAMA_MODEL :: string
  validateUUID :: "string \<Rightarrow> bool"
  post_generate :: "string \<Rightarrow> string \<Rightarrow> reply"
  post_generate_stream :: "string \<Rightarrow> string \<Rightarrow> stream_outcome"
  parse_value :: "string \<Rightarrow> json option"
  new_conversation_id :: string
  new_prompt_id :: string
  new_sentiment_id :: string
  now :: nat
  insert_ok :: "sentiment_row \<Rightarrow> bool"
  column_score :: "jsnum \<Rightarrow> jsnum"
  returns_stored :: bool

section \<open>What a handler does to the response object\<close>

datatype sse =
    Start_event string string string
  | Chunk_event string string string
  | End_event string string string
  | Error_event string

record prompt_attrs =
  attr_id :: string
  attr_prompt :: string
  attr_response :: string
  attr_createdAt :: nat

datatype payload =
    Message string
  | Error_body string
  | Error_details string string
  | Prompt_body string string string string string
  | Sentiment_body string string jsnum json string nat
  | Conversation_body conversation "prompt_attrs list"

text \<open>
  The calls on \<open>res\<close> and \<open>next\<close>, in order: \<open>res.status(n).json(body)\<close> (\<open>res.json\<close> alone
  is status 200), \<open>res.write\<close> of one server-sent event, \<open>res.end()\<close> and \<open>next(error)\<close>.
  Headers are left out. The outer \<open>catch\<close> of a handler, which calls \<open>next(error)\<close>, is
  reached by failures of the storage layer only.
\<close>

datatype res_call = Respond nat payload | Write sse | End_call | Next_error

record result =
  store_after :: store
  res_log :: "res_call list"
  upstream_calls :: nat
  uncaught :: bool

text \<open>The events a client has received: the writes before the connection is closed.\<close>

fun received :: "res_call list \<Rightarrow> sse list" where
  "received [] = []"
| "received (Write ev # cs) = ev # received cs"
| "received (End_call # cs) = []"
| "received (_ # cs) = received cs"

section \<open>The controller\<close>

definition apology :: string where
  "apology = ''Ho sento, no he pogut generar una resposta en aquest moment.''"

text \<open>
  \<open>generateResponse\<close> as its callers use it, with \<open>stream\<close> false: every exception of the
  call, and of reading \<open>response.data.response\<close>, ends in the \<open>catch\<close> that returns the
  apology.
\<close>

definition generateResponse :: "env \<Rightarrow> string \<Rightarrow> string \<Rightarrow> string" where
  "generateResponse e prompt model =
     (case post_generate e model prompt of
        Unavailable \<Rightarrow> apology
      | Replied None \<Rightarrow> apology
      | Replied (Some r) \<Rightarrow> trim r)"

definition Conversation_findByPk :: "store \<Rightarrow> string \<Rightarrow> conversation option" where
  "Conversation_findByPk s cid = find (\<lambda>c. conv_id c = cid) (Conversations s)"

definition Conversation_create :: "env \<Rightarrow> store \<Rightarrow> string \<Rightarrow> conversation \<times> store" where
  "Conversation_create e s cid =
     (let c = \<lparr>conv_id = cid, conv_createdAt = now e\<rparr>
      in (c, s\<lparr>Conversations := Conversations s @ [c]\<rparr>))"

definition Prompt_create :: "store \<Rightarrow> prompt_row \<Rightarrow> store" where
  "Prompt_create s p = s\<lparr>Prompts := Prompts s @ [p]\<rparr>"

definition Prompt_update :: "string \<Rightarrow> string \<Rightarrow> store \<Rightarrow> store" where
  "Prompt_update pid r s =
     s\<lparr>Prompts := map (\<lambda>p. if prompt_id p = pid then p\<lparr>prompt_response := r\<rparr> else p) (Prompts s)\<rparr>"

definition handleNormalResponse :: "env \<Rightarrow> store \<Rightarrow> conversation \<Rightarrow> string \<Rightarrow> string \<Rightarrow> result" where
  "handleNormalResponse e s conv prompt model =
     (let ollamaResponse = generateResponse e prompt model;
          newPrompt = \<lparr>prompt_id = new_prompt_id e, prompt_text = trim prompt,
            prompt_response = ollamaResponse, prompt_model = model, prompt_stream = False,
            prompt_ConversationId = conv_id conv, prompt_createdAt = now e\<rparr>
      in \<lparr>store_after = Prompt_create s newPrompt,
          res_log = [Respond 201 (Prompt_body (conv_id conv) (prompt_id newPrompt)
            (prompt_text newPrompt) (prompt_response newPrompt) ''Prompt registrat correctament'')],
          upstream_calls = 1,
          uncaught = False\<rparr>)"

subsection \<open>The streaming relay\<close>

text \<open>
  The state of one streaming session: the store, the accumulator \<open>fullResponse\<close>, the
  calls made on \<open>res\<close>, the texts of the \<open>prompt.update\<close> calls that have not settled yet
  (each handler suspended at its \<open>await\<close>), and whether an exception has escaped every
  handler. A listener that throws, and the \<open>async\<close> listener whose promise is rejected,
  are caught by nothing in the controller: the runtime's default ends the process, and
  the session does nothing more. A write made after \<open>res.end()\<close> is kept in the list of
  calls; \<^const>\<open>received\<close> does not count it.
\<close>

record relay =
  relay_store :: store
  fullResponse :: string
  relay_log :: "res_call list"
  awaiting :: "string list"
  escaped :: bool

text \<open>The \<open>data\<close> listener up to its \<open>await\<close>.\<close>

definition on_data :: "string \<Rightarrow> string \<Rightarrow> parsedChunk \<Rightarrow> relay \<Rightarrow> relay" where
  "on_data cid pid ch st =
     (case ch of
        SyntaxError \<Rightarrow> st\<lparr>escaped := True\<rparr>
      | Parsed r d \<Rightarrow>
          (let st1 = (case r of
                        None \<Rightarrow> st
                      | Some t \<Rightarrow>
                          if t \<noteq> [] then
                            st\<lparr>fullResponse := fullResponse st @ t,
                               relay_log := relay_log st @ [Write (Chunk_event cid pid t)]\<rparr>
                          else st)
           in if d then st1\<lparr>awaiting := awaiting st1 @ [fullResponse st1]\<rparr> else st1))"

text \<open>The \<open>data\<close> listener behind its \<open>await\<close>: the end event carries the accumulator as it is then.\<close>

definition on_update_settled :: "string \<Rightarrow> string \<Rightarrow> relay \<Rightarrow> relay" where
  "on_update_settled cid pid st =
     (case awaiting st of
        [] \<Rightarrow> st
      | v # vs \<Rightarrow>
          st\<lparr>relay_store := Prompt_update pid v (relay_store st),
             awaiting := vs,
             relay_log := relay_log st @ [Write (End_event cid pid (fullResponse st)), End_call]\<rparr>)"

definition dispatch :: "string \<Rightarrow> string \<Rightarrow> relay \<Rightarrow> loop_event \<Rightarrow> relay" where
  "dispatch cid pid st ev =
     (if escaped st then st
      else (case ev of
              Data ch \<Rightarrow> on_data cid pid ch st
            | StreamError \<Rightarrow> st\<lparr>escaped := True\<rparr>
            | UpdateSettled \<Rightarrow> on_update_settled cid pid st))"

definition settle_pending :: "string \<Rightarrow> string \<Rightarrow> relay \<Rightarrow> relay" where
  "settle_pending cid pid st =
     foldl (dispatch cid pid) st (replicate (length (awaiting st)) UpdateSettled)"

definition stream_error_message :: string where
  "stream_error_message = ''Error en el proc'' @ [CHR 0xE9] @ ''s de streaming''"

text \<open>
  \<open>processStreamingResponse\<close> awaits only the opening of the upstream call: when that
  throws, the \<open>catch\<close> of \<open>handleStreamingResponse\<close> writes the error event and ends the
  response. Otherwise it registers the listeners and returns; the events come later.
\<close>

definition handleStreamingResponse :: "env \<Rightarrow> store \<Rightarrow> conversation \<Rightarrow> string \<Rightarrow> string \<Rightarrow> result" where
  "handleStreamingResponse e s conv prompt model =
     (let newPrompt = \<lparr>prompt_id = new_prompt_id e, prompt_text = trim prompt,
            prompt_response = [], prompt_model = model, prompt_stream = True,
            prompt_ConversationId = conv_id conv, prompt_createdAt = now e\<rparr>;
          s1 = Prompt_create s newPrompt;
          start = Write (Start_event (conv_id conv) (prompt_id newPrompt) (trim prompt))
      in (case post_generate_stream e model prompt of
            Refused \<Rightarrow>
              \<lparr>store_after = s1,
               res_log = [start, Write (Error_event stream_error_message), End_call],
               upstream_calls = 1, uncaught = False\<rparr>
          | Stream evs \<Rightarrow>
              (let st0 = \<lparr>relay_store = s1, fullResponse = [], relay_log = [start],
                          awaiting = [], escaped = False\<rparr>;
                   st = settle_pending (conv_id conv) (prompt_id newPrompt)
                          (foldl (dispatch (conv_id conv) (prompt_id newPrompt)) st0 evs)
               in \<lparr>store_after = relay_store st, res_log = relay_log st,
                   upstream_calls = 1, uncaught = escaped st\<rparr>)))"

subsection \<open>Registering a prompt\<close>

record prompt_request =
  req_conversationId :: "string option"
  req_prompt :: "string option"
  req_model :: "string option"
  req_stream :: bool

definition prompt_required :: string where
  "prompt_required = ''El prompt '' @ [CHR 0xE9] @ ''s obligatori''"

definition invalid_id :: string where
  "invalid_id = ''ID de conversa inv'' @ [CHR 0xE0] @ ''lid''"

definition rejected :: "store \<Rightarrow> nat \<Rightarrow> payload \<Rightarrow> result" where
  "rejected s code body =
     \<lparr>store_after = s, res_log = [Respond code body], upstream_calls = 0, uncaught = False\<rparr>"

definition respond_to :: "env \<Rightarrow> prompt_request \<Rightarrow> store \<Rightarrow> conversation \<Rightarrow> string \<Rightarrow> result" where
  "respond_to e req s conv prompt =
     (let model = (case req_model req of None \<Rightarrow> DEFAULT_OLLAMA_MODEL e | Some m \<Rightarrow> m)
      in if req_stream req then handleStreamingResponse e s conv prompt model
         else handleNormalResponse e s conv prompt model)"

definition registerPrompt :: "env \<Rightarrow> store \<Rightarrow> prompt_request \<Rightarrow> result" where
  "registerPrompt e s req =
     (case req_prompt req of
        None \<Rightarrow> rejected s 400 (Message prompt_required)
      | Some prompt \<Rightarrow>
          if trim prompt = [] then rejected s 400 (Message prompt_required)
          else (case req_conversationId req of
                  None \<Rightarrow>
                    (let (conv, s1) = Conversation_create e s (new_conversation_id e)
                     in respond_to e req s1 conv prompt)
                | Some cid \<Rightarrow>
                    if cid = [] then
                      (let (conv, s1) = Conversation_create e s (new_conversation_id e)
                       in respond_to e req s1 conv prompt)
                    else if \<not> validateUUID e cid then rejected s 400 (Message invalid_id)
                    else (case Conversation_findByPk s cid of
                            Some conv \<Rightarrow> respond_to e req s conv prompt
                          | None \<Rightarrow>
                              (let (conv, s1) = Conversation_create e s cid
                               in respond_to e req s1 conv prompt))))"

subsection \<open>Retrieving a conversation\<close>

text \<open>
  The second \<open>findByPk\<close> asks the storage layer for the conversation with its prompts
  (the rows whose \<open>ConversationId\<close> is the key), four attributes of each, under
  \<open>ORDER BY createdAt ASC\<close>. The storage layer's sort is modelled by \<^const>\<open>sort_key\<close>;
  rows of equal creation time, whose order SQL leaves open, keep their storage order.
\<close>

definition attributes :: "prompt_row \<Rightarrow> prompt_attrs" where
  "attributes p =
     \<lparr>attr_id = prompt_id p, attr_prompt = prompt_text p,
      attr_response = prompt_response p, attr_createdAt = prompt_createdAt p\<rparr>"

definition included_prompts :: "store \<Rightarrow> string \<Rightarrow> prompt_attrs list" where
  "included_prompts s cid =
     sort_key attr_createdAt
       (map attributes (filter (\<lambda>p. prompt_ConversationId p = cid) (Prompts s)))"

definition not_found :: string where
  "not_found = ''Conversa no trobada''"

definition getConversation :: "env \<Rightarrow> store \<Rightarrow> string \<Rightarrow> result" where
  "getConversation e s cid =
     (if \<not> validateUUID e cid then rejected s 400 (Message invalid_id)
      else (case Conversation_findByPk s cid of
              None \<Rightarrow> rejected s 404 (Message not_found)
            | Some conv \<Rightarrow>
                \<lparr>store_after = s,
                 res_log = [Respond 200 (Conversation_body conv (included_prompts s cid))],
                 upstream_calls = 0, uncaught = False\<rparr>))"

subsection \<open>Sentiment analysis\<close>

definition newline :: string where
  "newline = [CHR 0x0A]"

definition quote :: string where
  "quote = [CHR 0x22]"

definition sentiment_prompt :: "string \<Rightarrow> string" where
  "sentiment_prompt text =
     ''Analitza el sentiment del seguent text i respon amb un JSON amb aquesta estructura exacta:'' @ newline @
     ''        {'' @ newline @
     ''            '' @ quote @ ''score'' @ quote @ '': X.X,'' @ newline @
     ''            '' @ quote @ ''sentiment'' @ quote @ '': '' @ quote @ ''positiu/negatiu/neutral'' @ quote @ newline @
     ''        }'' @ newline @
     newline @
     ''        '' @ quote @ ''score'' @ quote @ '' es un n'' @ [CHR 0xFA] @
       ''mero del 0 al 10 (0 = molt negatiu, 5 = neutral, 10 = molt positiu).'' @ newline @
     ''        El sentiment ha de ser: '' @ quote @ ''positiu'' @ quote @ '' (score > 6), '' @
       quote @ ''neutral'' @ quote @ '' (score 4-6) o '' @ quote @ ''negatiu'' @ quote @ '' (score < 4).'' @ newline @
     newline @
     ''        Text a analitzar: '' @ quote @ text @ quote @ newline @
     newline @
     ''        Respon NOM'' @ [CHR 0xC9] @ ''S amb el JSON, sense cap text m'' @ [CHR 0xE9] @ ''s.''"

text \<open>Removing the code-fence markup (\<open>treure markdown si hi ha\<close>).\<close>

definition strip_markdown :: "string \<Rightarrow> string" where
  "strip_markdown response =
     (let jsonText = trim response
      in if startsWith jsonText fence_json then replace_g fence (replace_g fence_json jsonText)
         else if startsWith jsonText fence then replace_g fence jsonText
         else jsonText)"

text \<open>
  The body of the inner \<open>try\<close>: \<open>None\<close> is every way into its \<open>catch\<close> (a syntax error, a
  property read on \<open>null\<close>, a \<open>score\<close> that is not a number, a \<open>sentiment\<close> that is falsy).
  Otherwise the clamped score and the \<open>sentiment\<close> as parsed.
\<close>

definition parse_analysis :: "(string \<Rightarrow> json option) \<Rightarrow> string \<Rightarrow> (jsnum \<times> json) option" where
  "parse_analysis pv response =
     (case JSON_parse pv (strip_markdown response) of
        None \<Rightarrow> None
      | Some JNull \<Rightarrow> None
      | Some analysisResult \<Rightarrow>
          (case get_prop analysisResult ''score'' of
             Some (JNum n) \<Rightarrow>
               (case get_prop analysisResult ''sentiment'' of
                  None \<Rightarrow> None
                | Some l \<Rightarrow>
                    if truthy (Some l)
                    then Some (Math_max (Fin 0) (Math_min (Fin 10) n), l)
                    else None)
           | _ \<Rightarrow> None))"

definition text_required :: string where
  "text_required = ''El camp text '' @ [CHR 0xE9] @ ''s obligatori i ha de contenir text valid''"

definition cannot_analyse :: string where
  "cannot_analyse = ''No s'' @ [CHR 0x27] @ ''ha pogut analitzar el text''"

definition invalid_format :: string where
  "invalid_format = ''El model no ha retornat un format v'' @ [CHR 0xE0] @ ''lid''"

text \<open>
  \<open>SentimentAnalysis.create\<close> with the five values the controller passes. The library
  validates them against the model file before the insert: a value of a \<open>STRING\<close> column
  that is an array or an object is a validation error (the other validations of the file,
  \<open>allowNull\<close> and \<open>notEmpty\<close> of the text, cannot fail here). Then the database takes the
  row or refuses it. \<open>None\<close> is the exception of either. Otherwise the row is stored with
  the score as the column holds it, and the instance is returned.
\<close>

definition string_violation :: "json \<Rightarrow> bool" where
  "string_violation v = (case v of JArr _ \<Rightarrow> True | JObj _ \<Rightarrow> True | _ \<Rightarrow> False)"

definition sentiment_values :: "env \<Rightarrow> string \<Rightarrow> jsnum \<Rightarrow> json \<Rightarrow> string \<Rightarrow> sentiment_row" where
  "sentiment_values e text score sentiment response =
     \<lparr>sentiment_id = new_sentiment_id e, sentiment_text = text,
      sentiment_score = score, sentiment_label = sentiment,
      sentiment_model = DEFAULT_OLLAMA_MODEL e,
      resposta_completa = response, sentiment_createdAt = now e\<rparr>"

definition SentimentAnalysis_create ::
  "env \<Rightarrow> store \<Rightarrow> string \<Rightarrow> jsnum \<Rightarrow> json \<Rightarrow> string \<Rightarrow> (sentiment_row \<times> store) option" where
  "SentimentAnalysis_create e s text score sentiment response =
     (let values = sentiment_values e text score sentiment response
      in if string_violation sentiment \<or> \<not> insert_ok e values then None
         else (let stored = values\<lparr>sentiment_score := column_score e score\<rparr>
               in Some (if returns_stored e then stored else values,
                        s\<lparr>SentimentAnalyses := SentimentAnalyses s @ [stored]\<rparr>)))"

text \<open>
  The request's \<open>text\<close> is \<open>None\<close> when it is absent or not a string. An exception of
  \<open>create\<close> ends in the outer \<open>catch\<close>: \<open>next(error)\<close>, and nothing is stored.
\<close>

definition analyzeSentiment :: "env \<Rightarrow> store \<Rightarrow> string option \<Rightarrow> result" where
  "analyzeSentiment e s text_field =
     (case text_field of
        None \<Rightarrow> rejected s 400 (Error_body text_required)
      | Some text \<Rightarrow>
          if text = [] \<or> trim text = [] then rejected s 400 (Error_body text_required)
          else
            (let response = generateResponse e (sentiment_prompt text) (DEFAULT_OLLAMA_MODEL e)
             in (case parse_analysis (parse_value e) response of
                   None \<Rightarrow>
                     \<lparr>store_after = s,
                      res_log = [Respond 500 (Error_details cannot_analyse invalid_format)],
                      upstream_calls = 1, uncaught = False\<rparr>
                 | Some (score, sentiment) \<Rightarrow>
                     (case SentimentAnalysis_create e s text score sentiment response of
                        None \<Rightarrow>
                          \<lparr>store_after = s, res_log = [Next_error],
                           upstream_calls = 1, uncaught = False\<rparr>
                      | Some (sentimentAnalysis, s1) \<Rightarrow>
                          \<lparr>store_after = s1,
                           res_log = [Respond 201 (Sentiment_body (sentiment_id sentimentAnalysis)
                             (sentiment_text sentimentAnalysis) (sentiment_score sentimentAnalysis)
                             (sentiment_label sentimentAnalysis) (sentiment_model sentimentAnalysis)
                             (sentiment_createdAt sentimentAnalysis))],
                           upstream_calls = 1, uncaught = False\<rparr>))))"

section \<open>Notions used in the statements\<close>

text \<open>A text contains a literal when the literal stands at some position of it.\<close>

fun contains :: "string \<Rightarrow> string \<Rightarrow> bool" where
  "contains lit [] = (lit = [])"
| "contains lit (c # cs) = (startsWith (c # cs) lit \<or> contains lit cs)"

text \<open>A JSON object text without white space around it: it opens and closes with a brace.\<close>

definition object_text :: "string \<Rightarrow> bool" where
  "object_text t = (t \<noteq> [] \<and> hd t = CHR ''{'' \<and> last t = CHR ''}'')"



text \<open>The model a prompt request runs on: its \<open>model\<close> field, or the default.\<close>

definition the_model :: "env \<Rightarrow> prompt_request \<Rightarrow> string" where
  "the_model e req = (case req_model req of None \<Rightarrow> DEFAULT_OLLAMA_MODEL e | Some m \<Rightarrow> m)"

text \<open>
  The conversation a request is attached to once its prompt and its identifier have
  passed validation, and the store with it.
\<close>

definition resolved :: "env \<Rightarrow> store \<Rightarrow> prompt_request \<Rightarrow> conversation \<times> store" where
  "resolved e s req =
     (case req_conversationId req of
        None \<Rightarrow> Conversation_create e s (new_conversation_id e)
      | Some cid \<Rightarrow>
          if cid = [] then Conversation_create e s (new_conversation_id e)
          else (case Conversation_findByPk s cid of
                  Some conv \<Rightarrow> (conv, s)
                | None \<Rightarrow> Conversation_create e s cid))"

text \<open>
  The identifier check lets a request pass when no identifier is supplied (absent, or the
  empty string, which JavaScript takes as false) or the validator accepts it.
\<close>

definition id_accepted :: "env \<Rightarrow> prompt_request \<Rightarrow> bool" where
  "id_accepted e req =
     (case req_conversationId req of None \<Rightarrow> True | Some cid \<Rightarrow> cid = [] \<or> validateUUID e cid)"

text \<open>The prompts of a conversation with the four attributes asked for, in storage order.\<close>

definition conversation_rows :: "store \<Rightarrow> string \<Rightarrow> prompt_attrs list" where
  "conversation_rows s cid = map attributes (filter (\<lambda>p. prompt_ConversationId p = cid) (Prompts s))"

text \<open>
  The text fragment a chunk of the stream carries, the non-empty fragments of a list of
  chunks, a parsed chunk that does not complete the stream, and one that does.
\<close>

fun fragment :: "parsedChunk \<Rightarrow> string" where
  "fragment SyntaxError = []"
| "fragment (Parsed None d) = []"
| "fragment (Parsed (Some t) d) = t"

definition fragments :: "parsedChunk list \<Rightarrow> string list" where
  "fragments cs = filter (\<lambda>t. t \<noteq> []) (map fragment cs)"

fun streaming :: "parsedChunk \<Rightarrow> bool" where
  "streaming SyntaxError = False"
| "streaming (Parsed r d) = (\<not> d)"

fun completing :: "parsedChunk \<Rightarrow> bool" where
  "completing SyntaxError = False"
| "completing (Parsed r d) = d"

fun is_chunk_event :: "sse \<Rightarrow> bool" where
  "is_chunk_event (Chunk_event c p t) = True"
| "is_chunk_event _ = False"

section \<open>A sample environment for closed examples\<close>

text \<open>
  An instance of the validator: the textual shape of a UUID, five groups of 8, 4, 4, 4
  and 12 hexadecimal digits separated by hyphens.
\<close>

definition is_hex :: "char \<Rightarrow> bool" where
  "is_hex c = (c \<in> set ''0123456789abcdefABCDEF'')"

definition uuid_shape :: "string \<Rightarrow> bool" where
  "uuid_shape s =
     (map (\<lambda>c. if is_hex c then (1::nat) else if c = CHR ''-'' then 2 else 0) s =
      replicate 8 1 @ [2] @ replicate 4 1 @ [2] @ replicate 4 1 @ [2] @ replicate 4 1 @ [2] @ replicate 12 1)"

text \<open>
  A database that takes a row whose sentiment is a text of at most 20 characters and whose
  score column rounds to the nearest hundredth.
\<close>

definition label_fits :: "sentiment_row \<Rightarrow> bool" where
  "label_fits r = (case sentiment_label r of JStr l \<Rightarrow> length l \<le> 20 | _ \<Rightarrow> False)"

definition hundredths :: "jsnum \<Rightarrow> jsnum" where
  "hundredths x = (case x of Fin q \<Rightarrow> Fin (of_int \<lfloor>q * 100 + 1 / 2\<rfloor> / 100) | _ \<Rightarrow> x)"

text \<open>An inference server that is down, an empty store, and requests with the default model.\<close>

definition sample_env :: env where
  "sample_env =
     \<lparr>DEFAULT_OLLAMA_MODEL = ''qwen2.5vl:7b'', validateUUID = uuid_shape,
      post_generate = (\<lambda>model prompt. Unavailable),
      post_generate_stream = (\<lambda>model prompt. Refused),
      parse_value = json_value,
      new_conversation_id = ''7d3c0a52-5a1e-4f0b-9c1d-2f6b8e4a1c11'',
      new_prompt_id = ''0b9f6c1e-3d2a-4e8f-8a77-5c4d3e2f1a00'',
      new_sentiment_id = ''4a1b2c3d-0000-4000-8000-123456789abc'',
      now = 1000, insert_ok = label_fits, column_score = hundredths, returns_stored = True\<rparr>"

definition empty_store :: store where
  "empty_store = \<lparr>Conversations = [], Prompts = [], SentimentAnalyses = []\<rparr>"

definition asks :: "string option \<Rightarrow> string option \<Rightarrow> bool \<Rightarrow> prompt_request" where
  "asks cid p as_stream =
     \<lparr>req_conversationId = cid, req_prompt = p, req_model = None, req_stream = as_stream\<rparr>"

text \<open>The same environment with a server that answers \<open>r\<close>, or that streams \<open>evs\<close>.\<close>

definition replies :: "string \<Rightarrow> env" where
  "replies r = sample_env\<lparr>post_generate := (\<lambda>model prompt. Replied (Some r))\<rparr>"

definition streams :: "loop_event list \<Rightarrow> env" where
  "streams evs = sample_env\<lparr>post_generate_stream := (\<lambda>model prompt. Stream evs)\<rparr>"

definition uuid1 :: string where
  "uuid1 = ''3f2504e0-4f89-41d3-9a0c-0305e82c3301''"

definition conv1 :: conversation where
  "conv1 = \<lparr>conv_id = uuid1, conv_createdAt = 5\<rparr>"

definition chunks4 :: "parsedChunk list" where
  "chunks4 = [Parsed (Some ''Hola'') False, Parsed (Some []) False, Parsed (Some '' mon'') False,
              Parsed (Some []) True]"

text \<open>
  Model outputs: a score out of range, a score with a given \<open>sentiment\<close>, and a score with an
  object in the place of the sentiment.
\<close>

definition score_with_object :: string where
  "score_with_object = ''{'' @ quote @ ''score'' @ quote @ '':7,'' @ quote @ ''sentiment'' @ quote @ '':{}}''"


definition score7 :: "string \<Rightarrow> string" where
  "score7 label = ''{'' @ quote @ ''score'' @ quote @ '':7,'' @ quote @ ''sentiment'' @ quote @ '':'' @ quote @ label @ quote @ ''}''"

text \<open>A store whose prompts lie in another order than they were created in.\<close>

definition row :: "string \<Rightarrow> string \<Rightarrow> string \<Rightarrow> nat \<Rightarrow> prompt_row" where
  "row pid cid p t =
     \<lparr>prompt_id = pid, prompt_text = p, prompt_response = ''ok'', prompt_model = ''m'',
      prompt_stream = False, prompt_ConversationId = cid, prompt_createdAt = t\<rparr>"

definition shuffled_store :: store where
  "shuffled_store =
     \<lparr>Conversations = [\<lparr>conv_id = uuid1, conv_createdAt = 5\<rparr>],
      Prompts = [row ''p3'' uuid1 ''tres'' 30, row ''p1'' uuid1 ''un'' 10,
                 row ''q'' ''altra'' ''fora'' 15, row ''p2'' uuid1 ''dos'' 20],
      SentimentAnalyses = []\<rparr>"

section \<open>Strings: trimming and the removal of code fences\<close>

lemma json_ws_is_space: "json_ws c \<Longrightarrow> is_space c"
  by (auto simp: json_ws_def is_space_def)

lemma trim_padded:
  assumes "t \<noteq> []" "\<not> is_space (hd t)" "\<not> is_space (last t)"
    and "\<forall>c\<in>set a. is_space c" "\<forall>c\<in>set b. is_space c"
  shows "trim (a @ t @ b) = t"
proof -
  have 1: "dropWhile is_space (a @ t @ b) = t @ b"
    using assms by (cases t) (simp_all add: dropWhile_append3)
  have "dropWhile is_space (rev (t @ b)) = rev t"
    using assms by (cases t rule: rev_cases) (simp_all add: dropWhile_append3)
  with 1 show ?thesis by (simp add: trim_def)
qed

lemma json_trim_padded:
  assumes "t \<noteq> []" "\<not> json_ws (hd t)" "\<not> json_ws (last t)"
    and "\<forall>c\<in>set a. json_ws c" "\<forall>c\<in>set b. json_ws c"
  shows "json_trim (a @ t @ b) = t"
proof -
  have 1: "dropWhile json_ws (a @ t @ b) = t @ b"
    using assms by (cases t) (simp_all add: dropWhile_append3)
  have "dropWhile json_ws (rev (t @ b)) = rev t"
    using assms by (cases t rule: rev_cases) (simp_all add: dropWhile_append3)
  with 1 show ?thesis by (simp add: json_trim_def)
qed

lemma trim_blank: "\<forall>c\<in>set p. is_space c \<Longrightarrow> trim p = []"
proof -
  assume "\<forall>c\<in>set p. is_space c"
  then have d: "dropWhile is_space p = []" by (induction p) simp_all
  show ?thesis unfolding trim_def d by simp
qed

lemma startsWith_iff: "startsWith s lit = (\<exists>r. s = lit @ r)"
proof
  assume "startsWith s lit"
  then have "s = lit @ drop (length lit) s"
    unfolding startsWith_def by (metis append_take_drop_id)
  then show "\<exists>r. s = lit @ r" ..
next
  assume "\<exists>r. s = lit @ r"
  then show "startsWith s lit" by (auto simp: startsWith_def)
qed

lemma startsWith_append_self: "startsWith (lit @ s) lit"
  by (simp add: startsWith_def)

lemma startsWith_fence: "startsWith s fence = (\<exists>r. s = CHR 0x60 # CHR 0x60 # CHR 0x60 # r)"
  by (simp add: startsWith_iff fence_def)

lemma startsWith_fence_json: "startsWith s fence_json \<Longrightarrow> startsWith s fence"
  by (auto simp: startsWith_iff fence_json_def)

lemma not_space_backtick: "\<not> is_space (CHR 0x60)"
  by (simp add: is_space_def)

text \<open>One step of the scan: a character at which the literal does not stand is kept.\<close>

lemma replace_g_step: "lit \<noteq> [] \<Longrightarrow> \<not> startsWith (c # s) lit \<Longrightarrow> replace_g lit (c # s) = c # replace_g lit s"
  by (subst replace_g.simps) simp

lemma replace_g_match: "lit \<noteq> [] \<Longrightarrow> replace_g lit (lit @ s) = replace_g lit (dropWhile is_space s)"
  by (subst replace_g.simps) (simp add: startsWith_append_self)

lemma replace_g_Nil: "replace_g lit [] = []"
  by (subst replace_g.simps) simp

text \<open>A stretch of text in which the literal starts nowhere is passed over unchanged.\<close>

lemma replace_g_skip:
  "lit \<noteq> [] \<Longrightarrow> \<forall>i<length a. \<not> startsWith (drop i (a @ b)) lit \<Longrightarrow> replace_g lit (a @ b) = a @ replace_g lit b"
proof (induction a)
  case Nil
  then show ?case by simp
next
  case (Cons c a)
  from Cons.prems(2) have "\<not> startsWith (drop 0 ((c # a) @ b)) lit" by blast
  then have h: "\<not> startsWith (c # a @ b) lit" by simp
  have "\<forall>i<length a. \<not> startsWith (drop i (a @ b)) lit"
  proof (intro allI impI)
    fix i assume "i < length a"
    then have "Suc i < length (c # a)" by simp
    with Cons.prems(2) have "\<not> startsWith (drop (Suc i) ((c # a) @ b)) lit" by blast
    then show "\<not> startsWith (drop i (a @ b)) lit" by simp
  qed
  with Cons have "replace_g lit (a @ b) = a @ replace_g lit b" by blast
  with h Cons.prems(1) show ?case by (simp add: replace_g_step)
qed

text \<open>
  A text without three backticks in a row that does not end in a backtick: no fence
  starts inside it, whatever follows.
\<close>

lemma fence_not_across:
  assumes "\<not> contains fence t" "t \<noteq> []" "last t \<noteq> CHR 0x60" "i < length t"
  shows "\<not> startsWith (drop i (t @ b)) fence"
  using assms
proof (induction t arbitrary: i)
  case Nil
  then show ?case by simp
next
  case (Cons c t)
  show ?case
  proof (cases i)
    case 0
    from Cons.prems(1) have n: "\<not> startsWith (c # t) fence" by simp
    show ?thesis
    proof
      assume "startsWith (drop i ((c # t) @ b)) fence"
      with 0 obtain r where r: "c # t @ b = CHR 0x60 # CHR 0x60 # CHR 0x60 # r"
        by (auto simp: startsWith_fence)
      show False
      proof (cases t)
        case Nil
        with r Cons.prems(3) show False by simp
      next
        case (Cons d t')
        note t = this
        show False
        proof (cases t')
          case Nil
          with r t Cons.prems(3) show False by simp
        next
          case (Cons e t'')
          with r t have "c # t = CHR 0x60 # CHR 0x60 # CHR 0x60 # t''" by simp
          with n show False by (simp add: startsWith_fence)
        qed
      qed
    qed
  next
    case (Suc j)
    with Cons.prems(4) have j: "j < length t" by simp
    then have "t \<noteq> []" by auto
    moreover from this Cons.prems(3) have "last t \<noteq> CHR 0x60" by simp
    moreover from Cons.prems(1) have "\<not> contains fence t" by simp
    ultimately have "\<not> startsWith (drop j (t @ b)) fence" using j Cons.IH by blast
    with Suc show ?thesis by simp
  qed
qed

lemma space_not_start:
  assumes "\<forall>c\<in>set b. is_space c" "i < length b"
  shows "\<not> startsWith (drop i (b @ r)) fence"
proof
  assume "startsWith (drop i (b @ r)) fence"
  then obtain q where "drop i (b @ r) = CHR 0x60 # q" by (auto simp: startsWith_fence)
  moreover from assms(2) have "drop i (b @ r) = b ! i # drop (Suc i) (b @ r)"
    by (simp add: Cons_nth_drop_Suc nth_append)
  ultimately have "b ! i = CHR 0x60" by simp
  moreover from assms have "is_space (b ! i)" by simp
  ultimately show False by (simp add: not_space_backtick)
qed

lemma replace_g_fence_json_fence: "replace_g fence_json fence = fence"
  by (simp add: fence_def fence_json_def replace_g_step replace_g_Nil startsWith_def)

lemma replace_g_fence_fence: "replace_g fence fence = []"
  using replace_g_match [of fence "[]"] by (simp add: fence_def replace_g_Nil)

lemma object_text_ends:
  assumes "object_text t"
  shows "t \<noteq> []" "\<not> is_space (hd t)" "\<not> is_space (last t)" "\<not> json_ws (hd t)" "\<not> json_ws (last t)"
    "last t \<noteq> CHR 0x60" "hd t \<noteq> CHR 0x60"
  using assms by (simp_all add: object_text_def is_space_def json_ws_def)

lemma replace_g_body:
  assumes "object_text t" "\<not> contains fence t" "\<forall>c\<in>set b. is_space c"
  shows "replace_g fence_json (t @ b @ fence) = t @ b @ fence"
    and "replace_g fence (t @ b @ fence) = t @ b"
proof -
  have lit: "fence \<noteq> []" "fence_json \<noteq> []" by (simp_all add: fence_def fence_json_def)
  have t: "\<forall>i<length t. \<not> startsWith (drop i (t @ b @ fence)) fence"
    using assms(1,2) fence_not_across object_text_ends(1,6) by blast
  have b: "\<forall>i<length b. \<not> startsWith (drop i (b @ fence)) fence"
    using assms(3) space_not_start by blast
  from t have tj: "\<forall>i<length t. \<not> startsWith (drop i (t @ b @ fence)) fence_json"
    using startsWith_fence_json by blast
  from b have bj: "\<forall>i<length b. \<not> startsWith (drop i (b @ fence)) fence_json"
    using startsWith_fence_json by blast
  have "replace_g fence_json (t @ b @ fence) = t @ replace_g fence_json (b @ fence)"
    using replace_g_skip [OF lit(2) tj] .
  also have "replace_g fence_json (b @ fence) = b @ replace_g fence_json fence"
    using replace_g_skip [OF lit(2) bj] .
  finally show "replace_g fence_json (t @ b @ fence) = t @ b @ fence"
    by (simp add: replace_g_fence_json_fence)
  have "replace_g fence (t @ b @ fence) = t @ replace_g fence (b @ fence)"
    using replace_g_skip [OF lit(1) t] .
  also have "replace_g fence (b @ fence) = b @ replace_g fence fence"
    using replace_g_skip [OF lit(1) b] .
  finally show "replace_g fence (t @ b @ fence) = t @ b"
    by (simp add: replace_g_fence_fence)
qed

lemma dropWhile_space_body:
  assumes "object_text t" "\<forall>c\<in>set a. is_space c"
  shows "dropWhile is_space (a @ t @ r) = t @ r"
  using assms object_text_ends(1,2) [OF assms(1)] by (cases t) (simp_all add: dropWhile_append3)

lemma trim_fenced: "trim (fence @ m @ fence) = fence @ m @ fence"
proof -
  have "trim ([] @ (fence @ m @ fence) @ []) = fence @ m @ fence"
    by (rule trim_padded) (simp_all add: fence_def not_space_backtick)
  then show ?thesis by simp
qed

lemma strip_markdown_fence_json:
  assumes "object_text t" "\<not> contains fence t" "\<forall>c\<in>set a. is_space c" "\<forall>c\<in>set b. is_space c"
  shows "strip_markdown (fence_json @ a @ t @ b @ fence) = t @ b"
proof -
  have lit: "fence_json \<noteq> []" by (simp add: fence_json_def)
  have tr: "trim (fence_json @ a @ t @ b @ fence) = fence_json @ a @ t @ b @ fence"
    using trim_fenced [of "''json'' @ a @ t @ b"] by (simp add: fence_json_def)
  have "replace_g fence_json (fence_json @ a @ t @ b @ fence) = replace_g fence_json (t @ b @ fence)"
    using replace_g_match [OF lit, of "a @ t @ b @ fence"] dropWhile_space_body [OF assms(1,3)] by simp
  with replace_g_body [OF assms(1,2,4)] tr show ?thesis
    by (simp add: strip_markdown_def startsWith_append_self)
qed

lemma strip_markdown_fence_plain:
  assumes "object_text t" "\<not> contains fence t" "\<forall>c\<in>set a. is_space c" "\<forall>c\<in>set b. is_space c"
  shows "strip_markdown (fence @ a @ t @ b @ fence) = t @ b"
proof -
  have lit: "fence \<noteq> []" by (simp add: fence_def)
  have tr: "trim (fence @ a @ t @ b @ fence) = fence @ a @ t @ b @ fence"
    using trim_fenced [of "a @ t @ b"] by simp
  have nj: "\<not> startsWith (fence @ a @ t @ b @ fence) fence_json"
  proof
    assume "startsWith (fence @ a @ t @ b @ fence) fence_json"
    then obtain r where "a @ t @ b @ fence = CHR ''j'' # r"
      by (auto simp: startsWith_iff fence_json_def)
    then have "dropWhile is_space (a @ t @ b @ fence) = CHR ''j'' # r"
      by (simp add: is_space_def)
    with dropWhile_space_body [OF assms(1,3), of "b @ fence"] have "hd t = CHR ''j''"
      using object_text_ends(1) [OF assms(1)] by (cases t) simp_all
    with assms(1) show False by (simp add: object_text_def)
  qed
  have "replace_g fence (fence @ a @ t @ b @ fence) = replace_g fence (t @ b @ fence)"
    using replace_g_match [OF lit, of "a @ t @ b @ fence"] dropWhile_space_body [OF assms(1,3)] by simp
  with replace_g_body [OF assms(1,2,4)] tr nj show ?thesis
    by (simp add: strip_markdown_def startsWith_append_self)
qed

lemma strip_markdown_plain_text:
  assumes "object_text t" "\<forall>c\<in>set a. is_space c" "\<forall>c\<in>set b. is_space c"
  shows "strip_markdown (a @ t @ b) = t"
proof -
  have tr: "trim (a @ t @ b) = t"
    using trim_padded assms object_text_ends(1,2,3) [OF assms(1)] by blast
  have "\<not> startsWith t fence"
    using object_text_ends(1,7) [OF assms(1)] by (cases t) (auto simp: startsWith_fence)
  with tr startsWith_fence_json show ?thesis
    by (auto simp: strip_markdown_def)
qed

section \<open>The sample environment\<close>

lemma sample_env_simps:
  "DEFAULT_OLLAMA_MODEL sample_env = ''qwen2.5vl:7b''"
  "validateUUID sample_env = uuid_shape"
  "post_generate sample_env = (\<lambda>model prompt. Unavailable)"
  "post_generate_stream sample_env = (\<lambda>model prompt. Refused)"
  "parse_value sample_env = json_value"
  "now sample_env = 1000"
  "insert_ok sample_env = label_fits"
  "column_score sample_env = hundredths"
  "returns_stored sample_env = True"
  by (simp_all add: sample_env_def)

lemma replies_simps:
  "DEFAULT_OLLAMA_MODEL (replies r) = ''qwen2.5vl:7b''"
  "validateUUID (replies r) = uuid_shape"
  "post_generate (replies r) = (\<lambda>model prompt. Replied (Some r))"
  "parse_value (replies r) = json_value"
  "new_conversation_id (replies r) = new_conversation_id sample_env"
  "new_prompt_id (replies r) = new_prompt_id sample_env"
  "new_sentiment_id (replies r) = new_sentiment_id sample_env"
  "now (replies r) = 1000"
  "insert_ok (replies r) = label_fits"
  "column_score (replies r) = hundredths"
  "returns_stored (replies r) = True"
  by (simp_all add: replies_def sample_env_def)

lemma streams_simps:
  "post_generate_stream (streams evs) = (\<lambda>model prompt. Stream evs)"
  "new_prompt_id (streams evs) = new_prompt_id sample_env"
  "new_conversation_id (streams evs) = new_conversation_id sample_env"
  "validateUUID (streams evs) = uuid_shape"
  "DEFAULT_OLLAMA_MODEL (streams evs) = ''qwen2.5vl:7b''"
  "now (streams evs) = 1000"
  by (simp_all add: streams_def sample_env_def)

lemma uuid1_ok: "uuid_shape uuid1"
  by code_simp

lemma bad_id: "\<not> uuid_shape ''conversa-1''"
  by code_simp

section \<open>Sentiment analysis\<close>








text \<open>
  An object in the place of the sentiment passes the controller's check but not the
  library's: nothing is stored and the error goes to \<open>next\<close>.
\<close>

lemma object_sentiment_not_stored:
  "store_after (analyzeSentiment (replies score_with_object) empty_store (Some ''Quin bon dia'')) = empty_store
   \<and> res_log (analyzeSentiment (replies score_with_object) empty_store (Some ''Quin bon dia'')) = [Next_error]"
proof -
  have 1: "trim ''Quin bon dia'' = ''Quin bon dia''" by code_simp
  have 2: "parse_analysis json_value (trim score_with_object) = Some (Fin 7, JObj [])" by code_simp
  from 1 2 show ?thesis
    by (simp add: analyzeSentiment_def Let_def replies_simps generateResponse_def
        SentimentAnalysis_create_def string_violation_def)
qed

text \<open>
  C6 as claimed, for every JSON object text, fails: the removal of fences is global, so
  inside a fence three backticks within a string value are removed as well. The object
  with score 7 whose sentiment is the letter a, three backticks and the letter b parses
  to that sentiment alone and to \<open>ab\<close> inside a fence.
\<close>

theorem fenced_differs_counterexample:
  "parse_analysis json_value (score7 (''a'' @ fence @ ''b'')) = Some (Fin 7, JStr (''a'' @ fence @ ''b''))
   \<and> parse_analysis json_value (fence_json @ newline @ score7 (''a'' @ fence @ ''b'') @ newline @ fence) = Some (Fin 7, JStr ''ab'')"
  by code_simp

text \<open>
  C6 (amended). For every JSON object text \<open>t\<close> that does not contain three consecutive
  backticks, with JSON white space \<open>a'\<close>, \<open>b'\<close> around it: wrapped as a fence (three
  backticks, with or without \<open>json\<close>), white space, the text, JSON white space and a
  closing fence, it parses to the same score and sentiment (or fails alike) as the
  unfenced text, for every value grammar of the runtime.
\<close>

theorem fenced_parses_like_unfenced:
  assumes "object_text t" "\<not> contains fence t"
    and "\<forall>c\<in>set a. is_space c" "\<forall>c\<in>set b. json_ws c"
    and "\<forall>c\<in>set a'. json_ws c" "\<forall>c\<in>set b'. json_ws c"
  shows "parse_analysis pv (fence_json @ a @ t @ b @ fence) = parse_analysis pv (a' @ t @ b')
       \<and> parse_analysis pv (fence @ a @ t @ b @ fence) = parse_analysis pv (a' @ t @ b')"
proof -
  from assms(4,5,6) have sp: "\<forall>c\<in>set b. is_space c" "\<forall>c\<in>set a'. is_space c" "\<forall>c\<in>set b'. is_space c"
    using json_ws_is_space by blast+
  have "json_trim ([] @ t @ b) = t"
    using json_trim_padded [of t "[]" b] object_text_ends(1,4,5) [OF assms(1)] assms(4) by simp
  moreover have "json_trim ([] @ t @ []) = t"
    using json_trim_padded [of t "[]" "[]"] object_text_ends(1,4,5) [OF assms(1)] by simp
  ultimately show ?thesis
    using strip_markdown_fence_json [OF assms(1,2,3) sp(1)]
      strip_markdown_fence_plain [OF assms(1,2,3) sp(1)]
      strip_markdown_plain_text [OF assms(1) sp(2,3)]
    by (simp add: parse_analysis_def JSON_parse_def)
qed

theorem fenced_parses_like_unfenced_witness:
  "parse_analysis json_value (fence_json @ newline @ score7 ''positiu'' @ newline @ fence) = Some (Fin 7, JStr ''positiu'')
   \<and> parse_analysis json_value (fence @ newline @ score7 ''positiu'' @ newline @ fence) = Some (Fin 7, JStr ''positiu'')"
proof -
  have 1: "object_text (score7 ''positiu'')" by code_simp
  have 2: "\<not> contains fence (score7 ''positiu'')" by code_simp
  have 3: "\<forall>c\<in>set newline. is_space c" by code_simp
  have 4: "\<forall>c\<in>set newline. json_ws c" by code_simp
  have 5: "\<forall>c\<in>set []. json_ws c" by simp
  have 6: "parse_analysis json_value ([] @ score7 ''positiu'' @ []) = Some (Fin 7, JStr ''positiu'')"
    by code_simp
  from fenced_parses_like_unfenced [OF 1 2 3 4 5 5, of json_value] 6 show ?thesis by simp
qed

section \<open>Registering a prompt\<close>

lemma rejected_simps:
  "store_after (rejected s code body) = s"
  "res_log (rejected s code body) = [Respond code body]"
  "upstream_calls (rejected s code body) = 0"
  "uncaught (rejected s code body) = False"
  by (simp_all add: rejected_def)

text \<open>
  C7. A prompt request whose prompt text is absent, empty or made of white space only is
  answered 400; the inference server is not called and the store is left as it was: no
  \<open>Conversation\<close> and no \<open>Prompt\<close> is created.
\<close>

theorem blank_prompt_rejected:
  assumes "case req_prompt req of None \<Rightarrow> True | Some p \<Rightarrow> \<forall>c\<in>set p. is_space c"
  shows "res_log (registerPrompt e s req) = [Respond 400 (Message prompt_required)]
       \<and> upstream_calls (registerPrompt e s req) = 0
       \<and> store_after (registerPrompt e s req) = s"
  using assms
  by (auto simp: registerPrompt_def rejected_simps trim_blank split: option.splits)

theorem blank_prompt_rejected_witness:
  "res_log (registerPrompt sample_env empty_store (asks None (Some [CHR 0x20, CHR 0x09, CHR 0x0A]) False))
       = [Respond 400 (Message prompt_required)]
   \<and> upstream_calls (registerPrompt sample_env empty_store (asks None (Some [CHR 0x20, CHR 0x09, CHR 0x0A]) False)) = 0
   \<and> store_after (registerPrompt sample_env empty_store (asks None (Some [CHR 0x20, CHR 0x09, CHR 0x0A]) False)) = empty_store
   \<and> res_log (registerPrompt sample_env empty_store (asks None None True)) = [Respond 400 (Message prompt_required)]"
proof -
  have 1: "case req_prompt (asks None (Some [CHR 0x20, CHR 0x09, CHR 0x0A]) False) of None \<Rightarrow> True
      | Some p \<Rightarrow> \<forall>c\<in>set p. is_space c"
    by (simp add: asks_def is_space_def)
  have 2: "case req_prompt (asks None None True) of None \<Rightarrow> True | Some p \<Rightarrow> \<forall>c\<in>set p. is_space c"
    by (simp add: asks_def)
  from blank_prompt_rejected [OF 1] blank_prompt_rejected [OF 2] show ?thesis by simp
qed

lemma registerPrompt_accepted:
  assumes "req_prompt req = Some p" "trim p \<noteq> []" "id_accepted e req"
  shows "registerPrompt e s req =
           respond_to e req (snd (resolved e s req)) (fst (resolved e s req)) p"
  using assms
  by (auto simp: registerPrompt_def resolved_def id_accepted_def Let_def
           split: option.splits prod.splits)

lemma respond_to_normal:
  assumes "\<not> req_stream req"
  shows "respond_to e req s conv p = handleNormalResponse e s conv p (the_model e req)"
  using assms by (simp add: respond_to_def the_model_def)

lemma upstream_calls_respond_to: "upstream_calls (respond_to e req s conv p) = 1"
  by (simp add: respond_to_def handleNormalResponse_def handleStreamingResponse_def Let_def
      split: stream_outcome.splits)

text \<open>The inference server is called exactly when the prompt and the identifier pass validation.\<close>

lemma upstream_called_iff:
  assumes "req_prompt req = Some p"
  shows "(0 < upstream_calls (registerPrompt e s req)) = (trim p \<noteq> [] \<and> id_accepted e req)"
  using assms
  by (auto simp: registerPrompt_def id_accepted_def rejected_simps upstream_calls_respond_to Let_def
      split: option.splits prod.splits)

text \<open>
  C2. A non-streaming prompt request whose call of the inference server is made and
  fails persists exactly one \<open>Prompt\<close> row, whose response is the apology text, and
  answers 201 with that text: the request is not aborted.
\<close>

theorem upstream_failure_persists_apology:
  assumes "\<not> req_stream req" "req_prompt req = Some p"
    and "0 < upstream_calls (registerPrompt e s req)"
    and "post_generate e (the_model e req) p = Unavailable"
  shows "Prompts (store_after (registerPrompt e s req)) =
           Prompts s @
             [\<lparr>prompt_id = new_prompt_id e, prompt_text = trim p, prompt_response = apology,
               prompt_model = the_model e req, prompt_stream = False,
               prompt_ConversationId = conv_id (fst (resolved e s req)),
               prompt_createdAt = now e\<rparr>]
       \<and> res_log (registerPrompt e s req) =
           [Respond 201 (Prompt_body (conv_id (fst (resolved e s req))) (new_prompt_id e) (trim p)
              apology ''Prompt registrat correctament'')]
       \<and> \<not> uncaught (registerPrompt e s req)"
proof -
  from assms(3) upstream_called_iff [OF assms(2), of e s] have ok: "trim p \<noteq> []" "id_accepted e req"
    by blast+
  have "Prompts (snd (resolved e s req)) = Prompts s"
    by (auto simp: resolved_def Conversation_create_def Let_def split: option.splits)
  with assms ok show ?thesis
    by (simp add: registerPrompt_accepted respond_to_normal handleNormalResponse_def
        generateResponse_def Prompt_create_def Let_def)
qed

theorem upstream_failure_persists_apology_witness:
  "Prompts (store_after (registerPrompt sample_env empty_store (asks None (Some ''  Hola '') False))) =
     [\<lparr>prompt_id = new_prompt_id sample_env, prompt_text = ''Hola'', prompt_response = apology,
       prompt_model = ''qwen2.5vl:7b'', prompt_stream = False,
       prompt_ConversationId = new_conversation_id sample_env, prompt_createdAt = 1000\<rparr>]
   \<and> res_log (registerPrompt sample_env empty_store (asks None (Some ''  Hola '') False)) =
     [Respond 201 (Prompt_body (new_conversation_id sample_env) (new_prompt_id sample_env) ''Hola'' apology
        ''Prompt registrat correctament'')]"
proof -
  have t: "trim ''  Hola '' = ''Hola''" by code_simp
  have 1: "\<not> req_stream (asks None (Some ''  Hola '') False)" by (simp add: asks_def)
  have 2: "req_prompt (asks None (Some ''  Hola '') False) = Some ''  Hola ''" by (simp add: asks_def)
  have "id_accepted sample_env (asks None (Some ''  Hola '') False)" by (simp add: id_accepted_def asks_def)
  with t upstream_called_iff [OF 2, of sample_env empty_store]
  have 3: "0 < upstream_calls (registerPrompt sample_env empty_store (asks None (Some ''  Hola '') False))"
    by simp
  have 4: "post_generate sample_env (the_model sample_env (asks None (Some ''  Hola '') False)) ''  Hola '' = Unavailable"
    by (simp add: sample_env_simps)
  from upstream_failure_persists_apology [OF 1 2 3 4] t
  show ?thesis
    by (simp add: resolved_def asks_def Conversation_create_def empty_store_def the_model_def sample_env_simps Let_def)
qed

text \<open>
  C9 as claimed, for every non-empty prompt, fails: the controller trims the prompt before
  it tests it, so a prompt of one space, which is not the empty string, is answered 400
  and nothing is persisted, whatever the inference server would do.
\<close>

theorem one_space_prompt_counterexample:
  "[CHR 0x20] \<noteq> ([] :: string)
   \<and> id_accepted sample_env (asks None (Some [CHR 0x20]) False)
   \<and> \<not> req_stream (asks None (Some [CHR 0x20]) False)
   \<and> res_log (registerPrompt sample_env empty_store (asks None (Some [CHR 0x20]) False))
       = [Respond 400 (Message prompt_required)]
   \<and> Prompts (store_after (registerPrompt sample_env empty_store (asks None (Some [CHR 0x20]) False))) = []"
proof -
  have "trim [CHR 0x20] = []" by code_simp
  then show ?thesis
    by (simp add: registerPrompt_def asks_def rejected_simps id_accepted_def empty_store_def)
qed

text \<open>
  C9 (amended). A non-streaming prompt request whose prompt is neither empty nor made of
  white space only (something is left after trimming) and whose conversation identifier
  passes validation is answered 201 whatever the inference server does; the \<open>response\<close>
  field of the answer and the response of the persisted \<open>Prompt\<close> are what
  \<open>generateResponse\<close> returned, and that is the fixed apology text when the call failed.
\<close>

theorem upstream_outage_still_201:
  assumes "req_prompt req = Some p" "trim p \<noteq> []" "id_accepted e req" "\<not> req_stream req"
  shows "res_log (registerPrompt e s req) =
           [Respond 201 (Prompt_body (conv_id (fst (resolved e s req))) (new_prompt_id e) (trim p)
              (generateResponse e p (the_model e req)) ''Prompt registrat correctament'')]
       \<and> prompt_response (last (Prompts (store_after (registerPrompt e s req))))
           = generateResponse e p (the_model e req)
       \<and> (post_generate e (the_model e req) p = Unavailable
            \<longrightarrow> generateResponse e p (the_model e req)
                = ''Ho sento, no he pogut generar una resposta en aquest moment.'')"
  using assms
  by (simp add: registerPrompt_accepted respond_to_normal handleNormalResponse_def
      generateResponse_def Prompt_create_def Let_def apology_def)

text \<open>The same request and the same status with the server down and with the server answering.\<close>

theorem upstream_outage_still_201_witness:
  "res_log (registerPrompt sample_env empty_store (asks (Some uuid1) (Some ''Hola'') False)) =
     [Respond 201 (Prompt_body uuid1 (new_prompt_id sample_env) ''Hola''
        ''Ho sento, no he pogut generar una resposta en aquest moment.'' ''Prompt registrat correctament'')]
   \<and> res_log (registerPrompt (replies ''Bon dia!'') empty_store (asks (Some uuid1) (Some ''Hola'') False)) =
     [Respond 201 (Prompt_body uuid1 (new_prompt_id sample_env) ''Hola''
        ''Bon dia!'' ''Prompt registrat correctament'')]"
proof -
  have t: "trim ''Hola'' = ''Hola''" "trim ''Bon dia!'' = ''Bon dia!''" by code_simp+
  have 1: "req_prompt (asks (Some uuid1) (Some ''Hola'') False) = Some ''Hola''" by (simp add: asks_def)
  have 2: "trim ''Hola'' \<noteq> []" using t by simp
  have 3: "id_accepted sample_env (asks (Some uuid1) (Some ''Hola'') False)"
    "id_accepted (replies ''Bon dia!'') (asks (Some uuid1) (Some ''Hola'') False)"
    using uuid1_ok by (simp_all add: id_accepted_def asks_def sample_env_simps replies_simps)
  have 4: "\<not> req_stream (asks (Some uuid1) (Some ''Hola'') False)" by (simp add: asks_def)
  from upstream_outage_still_201 [OF 1 2 3(1) 4, of empty_store]
    upstream_outage_still_201 [OF 1 2 3(2) 4, of empty_store] t
  show ?thesis
    by (simp add: resolved_def asks_def Conversation_create_def empty_store_def the_model_def
        sample_env_simps replies_simps Conversation_findByPk_def generateResponse_def Let_def uuid1_def)
qed

subsection \<open>Conversations\<close>

lemma Conversations_Prompt_update: "Conversations (Prompt_update pid r s) = Conversations s"
  by (simp add: Prompt_update_def)

lemma Conversations_dispatch: "Conversations (relay_store (dispatch cid pid st ev)) = Conversations (relay_store st)"
  by (auto simp: dispatch_def on_data_def on_update_settled_def Let_def Conversations_Prompt_update
      split: loop_event.splits parsedChunk.splits option.splits list.splits)

lemma Conversations_run: "Conversations (relay_store (foldl (dispatch cid pid) st evs)) = Conversations (relay_store st)"
  by (induction evs arbitrary: st) (simp_all add: Conversations_dispatch)

lemma Conversations_respond_to: "Conversations (store_after (respond_to e req s conv p)) = Conversations s"
  by (auto simp: respond_to_def handleNormalResponse_def handleStreamingResponse_def Let_def
      Prompt_create_def settle_pending_def Conversations_run split: stream_outcome.splits)

lemma find_append_None: "find P xs = None \<Longrightarrow> find P (xs @ ys) = find P ys"
  by (induction xs) (auto split: if_splits)

lemma findByPk_append_new:
  "Conversation_findByPk s cid = None \<Longrightarrow>
   find (\<lambda>c. conv_id c = cid) (Conversations s @ [\<lparr>conv_id = cid, conv_createdAt = t\<rparr>])
     = Some \<lparr>conv_id = cid, conv_createdAt = t\<rparr>"
  by (simp add: Conversation_findByPk_def find_append_None)

lemma findByPk_None_filter:
  "Conversation_findByPk s cid = None \<Longrightarrow> filter (\<lambda>c. conv_id c = cid) (Conversations s) = []"
  by (auto simp: Conversation_findByPk_def find_None_iff filter_empty_conv)

text \<open>
  C5 as claimed, for every prompt request, fails. The prompt is validated first: a request
  with an empty prompt and a well-formed unknown identifier is answered 400 and creates
  no conversation. And the empty string is no supplied identifier for the controller:
  with it the request is answered 201 under a generated identifier.
\<close>

theorem unknown_id_blank_prompt_counterexample:
  "uuid_shape uuid1
   \<and> Conversation_findByPk empty_store uuid1 = None
   \<and> res_log (registerPrompt sample_env empty_store (asks (Some uuid1) (Some []) False))
       = [Respond 400 (Message prompt_required)]
   \<and> Conversation_findByPk (store_after (registerPrompt sample_env empty_store (asks (Some uuid1) (Some []) False))) uuid1 = None
   \<and> \<not> uuid_shape []
   \<and> res_log (registerPrompt sample_env empty_store (asks (Some []) (Some ''Hola'') False))
       = [Respond 201 (Prompt_body (new_conversation_id sample_env) (new_prompt_id sample_env) ''Hola'' apology
            ''Prompt registrat correctament'')]
   \<and> Conversations (store_after (registerPrompt sample_env empty_store (asks (Some []) (Some ''Hola'') False)))
       = [\<lparr>conv_id = new_conversation_id sample_env, conv_createdAt = 1000\<rparr>]"
proof -
  have t: "trim ''Hola'' = ''Hola''" "trim [] = []" by code_simp+
  have n: "\<not> uuid_shape []" by code_simp
  from t n uuid1_ok show ?thesis
    by (simp add: registerPrompt_def asks_def rejected_simps empty_store_def Conversation_findByPk_def
        respond_to_def handleNormalResponse_def generateResponse_def Conversation_create_def
        Prompt_create_def sample_env_simps Let_def)
qed

text \<open>
  C5 (amended). A prompt request with a prompt that is not blank and a non-empty
  well-formed conversation identifier unknown to the store creates exactly one
  \<open>Conversation\<close> with that identifier, which a lookup by the identifier then returns. A
  request with a non-empty malformed identifier is answered 400, calls no inference
  server and leaves the store as it was.
\<close>

theorem unknown_id_creates_conversation:
  "(req_prompt req = Some p \<and> trim p \<noteq> [] \<and> req_conversationId req = Some cid \<and> cid \<noteq> []
      \<and> validateUUID e cid \<and> Conversation_findByPk s cid = None
    \<longrightarrow> Conversations (store_after (registerPrompt e s req))
          = Conversations s @ [\<lparr>conv_id = cid, conv_createdAt = now e\<rparr>]
      \<and> filter (\<lambda>c. conv_id c = cid) (Conversations (store_after (registerPrompt e s req)))
          = [\<lparr>conv_id = cid, conv_createdAt = now e\<rparr>]
      \<and> Conversation_findByPk (store_after (registerPrompt e s req)) cid
          = Some \<lparr>conv_id = cid, conv_createdAt = now e\<rparr>)
   \<and> (req_conversationId req = Some cid \<and> cid \<noteq> [] \<and> \<not> validateUUID e cid
    \<longrightarrow> (res_log (registerPrompt e s req) = [Respond 400 (Message invalid_id)]
          \<or> res_log (registerPrompt e s req) = [Respond 400 (Message prompt_required)])
      \<and> store_after (registerPrompt e s req) = s
      \<and> upstream_calls (registerPrompt e s req) = 0)"
proof (intro conjI impI)
  assume a: "req_prompt req = Some p \<and> trim p \<noteq> [] \<and> req_conversationId req = Some cid \<and> cid \<noteq> []
      \<and> validateUUID e cid \<and> Conversation_findByPk s cid = None"
  then have r: "registerPrompt e s req =
      respond_to e req (s\<lparr>Conversations := Conversations s @ [\<lparr>conv_id = cid, conv_createdAt = now e\<rparr>]\<rparr>)
        \<lparr>conv_id = cid, conv_createdAt = now e\<rparr> p"
    by (simp add: registerPrompt_def Conversation_create_def Let_def)
  then show c: "Conversations (store_after (registerPrompt e s req))
          = Conversations s @ [\<lparr>conv_id = cid, conv_createdAt = now e\<rparr>]"
    by (simp add: Conversations_respond_to)
  from a c show "filter (\<lambda>c. conv_id c = cid) (Conversations (store_after (registerPrompt e s req)))
          = [\<lparr>conv_id = cid, conv_createdAt = now e\<rparr>]"
    by (simp add: findByPk_None_filter)
  from a c show "Conversation_findByPk (store_after (registerPrompt e s req)) cid
          = Some \<lparr>conv_id = cid, conv_createdAt = now e\<rparr>"
    using findByPk_append_new [of s cid "now e"] by (simp add: Conversation_findByPk_def)
next
  assume b: "req_conversationId req = Some cid \<and> cid \<noteq> [] \<and> \<not> validateUUID e cid"
  then show "res_log (registerPrompt e s req) = [Respond 400 (Message invalid_id)]
          \<or> res_log (registerPrompt e s req) = [Respond 400 (Message prompt_required)]"
    by (auto simp: registerPrompt_def rejected_simps split: option.splits)
  from b show "store_after (registerPrompt e s req) = s"
    by (auto simp: registerPrompt_def rejected_simps split: option.splits)
  from b show "upstream_calls (registerPrompt e s req) = 0"
    by (auto simp: registerPrompt_def rejected_simps split: option.splits)
qed

theorem unknown_id_creates_conversation_witness:
  "Conversation_findByPk (store_after (registerPrompt sample_env empty_store (asks (Some uuid1) (Some ''Hola'') False))) uuid1
      = Some \<lparr>conv_id = uuid1, conv_createdAt = 1000\<rparr>
   \<and> filter (\<lambda>c. conv_id c = uuid1)
        (Conversations (store_after (registerPrompt sample_env empty_store (asks (Some uuid1) (Some ''Hola'') False))))
      = [\<lparr>conv_id = uuid1, conv_createdAt = 1000\<rparr>]
   \<and> store_after (registerPrompt sample_env empty_store (asks (Some ''conversa-1'') (Some ''Hola'') False)) = empty_store
   \<and> res_log (registerPrompt sample_env empty_store (asks (Some ''conversa-1'') (Some ''Hola'') False))
      = [Respond 400 (Message invalid_id)]"
proof -
  have t: "trim ''Hola'' \<noteq> []" by code_simp
  have u: "uuid1 \<noteq> []" by (simp add: uuid1_def)
  have 1: "req_prompt (asks (Some uuid1) (Some ''Hola'') False) = Some ''Hola'' \<and> trim ''Hola'' \<noteq> []
      \<and> req_conversationId (asks (Some uuid1) (Some ''Hola'') False) = Some uuid1 \<and> uuid1 \<noteq> []
      \<and> validateUUID sample_env uuid1 \<and> Conversation_findByPk empty_store uuid1 = None"
    using t u uuid1_ok by (simp add: asks_def sample_env_simps empty_store_def Conversation_findByPk_def)
  have 2: "req_conversationId (asks (Some ''conversa-1'') (Some ''Hola'') False) = Some ''conversa-1''
      \<and> ''conversa-1'' \<noteq> [] \<and> \<not> validateUUID sample_env ''conversa-1''"
    using bad_id by (simp add: asks_def sample_env_simps)
  have 3: "res_log (registerPrompt sample_env empty_store (asks (Some ''conversa-1'') (Some ''Hola'') False))
      \<noteq> [Respond 400 (Message prompt_required)]"
    using t bad_id by (simp add: registerPrompt_def asks_def sample_env_simps rejected_simps invalid_id_def prompt_required_def)
  from unknown_id_creates_conversation [of "asks (Some uuid1) (Some ''Hola'') False" "''Hola''" uuid1 sample_env empty_store] 1
    unknown_id_creates_conversation [of "asks (Some ''conversa-1'') (Some ''Hola'') False" "''Hola''" "''conversa-1''" sample_env empty_store] 2 3
  show ?thesis by (simp add: sample_env_simps empty_store_def)
qed

section \<open>Retrieving a conversation\<close>

lemma included_prompts_rows: "included_prompts s cid = sort_key attr_createdAt (conversation_rows s cid)"
  by (simp add: included_prompts_def conversation_rows_def)

lemma mset_rows_cong:
  "mset (Prompts s') = mset (Prompts s) \<Longrightarrow> mset (conversation_rows s' cid) = mset (conversation_rows s cid)"
proof -
  assume "mset (Prompts s') = mset (Prompts s)"
  then have "filter_mset (\<lambda>p. prompt_ConversationId p = cid) (mset (Prompts s'))
      = filter_mset (\<lambda>p. prompt_ConversationId p = cid) (mset (Prompts s))" by simp
  then have "mset (filter (\<lambda>p. prompt_ConversationId p = cid) (Prompts s'))
      = mset (filter (\<lambda>p. prompt_ConversationId p = cid) (Prompts s))" by simp
  then have "image_mset attributes (mset (filter (\<lambda>p. prompt_ConversationId p = cid) (Prompts s')))
      = image_mset attributes (mset (filter (\<lambda>p. prompt_ConversationId p = cid) (Prompts s)))" by simp
  then show ?thesis by (simp add: conversation_rows_def)
qed

lemma times_any_order:
  assumes "mset (Prompts s') = mset (Prompts s)"
  shows "map attr_createdAt (included_prompts s' cid) = map attr_createdAt (included_prompts s cid)"
proof -
  have "mset (map attr_createdAt (included_prompts s' cid)) = mset (map attr_createdAt (conversation_rows s cid))"
    using mset_rows_cong [OF assms, of cid] by (simp add: included_prompts_rows)
  then have "sort (map attr_createdAt (conversation_rows s cid)) = map attr_createdAt (included_prompts s' cid)"
    by (rule properties_for_sort) (simp add: included_prompts_rows)
  moreover have "sort (map attr_createdAt (conversation_rows s cid)) = map attr_createdAt (included_prompts s cid)"
    by (rule properties_for_sort) (simp_all add: included_prompts_rows)
  ultimately show ?thesis by simp
qed

lemma rows_any_order:
  assumes "mset (Prompts s') = mset (Prompts s)" "distinct (map attr_createdAt (conversation_rows s cid))"
  shows "included_prompts s' cid = included_prompts s cid"
proof -
  have "inj_on attr_createdAt (set (conversation_rows s cid))"
    using assms(2) by (simp add: distinct_map)
  moreover have "mset (conversation_rows s cid) = mset (included_prompts s' cid)"
    using mset_rows_cong [OF assms(1), of cid] by (simp add: included_prompts_rows)
  moreover have "sorted (map attr_createdAt (included_prompts s' cid))"
    by (simp add: included_prompts_rows)
  ultimately have "sort_key attr_createdAt (conversation_rows s cid) = included_prompts s' cid"
    using sort_key_inj_key_eq [of "conversation_rows s cid" "included_prompts s' cid" attr_createdAt] by blast
  then show ?thesis by (simp add: included_prompts_rows)
qed

text \<open>
  C8. Retrieving a conversation by a well-formed known identifier answers 200 with the
  prompts of that conversation, each once, in ascending order of creation time. In
  whatever order the storage holds the same rows, the sequence of creation times in the
  answer is the same, and when no two prompts share a creation time so is the answer.
\<close>

theorem conversation_prompts_by_creation_time:
  assumes "validateUUID e cid" "Conversation_findByPk s cid = Some conv"
  shows "res_log (getConversation e s cid) = [Respond 200 (Conversation_body conv (included_prompts s cid))]
       \<and> sorted (map attr_createdAt (included_prompts s cid))
       \<and> mset (included_prompts s cid) = mset (conversation_rows s cid)
       \<and> (\<forall>s'. mset (Prompts s') = mset (Prompts s) \<longrightarrow>
            map attr_createdAt (included_prompts s' cid) = map attr_createdAt (included_prompts s cid)
            \<and> (distinct (map attr_createdAt (conversation_rows s cid)) \<longrightarrow>
                 included_prompts s' cid = included_prompts s cid))"
proof (intro conjI allI impI)
  from assms show "res_log (getConversation e s cid) = [Respond 200 (Conversation_body conv (included_prompts s cid))]"
    by (simp add: getConversation_def)
  show "sorted (map attr_createdAt (included_prompts s cid))"
    by (simp add: included_prompts_rows)
  show "mset (included_prompts s cid) = mset (conversation_rows s cid)"
    by (simp add: included_prompts_rows)
next
  fix s' :: store assume "mset (Prompts s') = mset (Prompts s)"
  then show "map attr_createdAt (included_prompts s' cid) = map attr_createdAt (included_prompts s cid)"
    by (rule times_any_order)
next
  fix s' :: store assume "mset (Prompts s') = mset (Prompts s)" "distinct (map attr_createdAt (conversation_rows s cid))"
  then show "included_prompts s' cid = included_prompts s cid"
    by (rule rows_any_order)
qed

theorem conversation_prompts_by_creation_time_witness:
  "res_log (getConversation sample_env shuffled_store uuid1) =
     [Respond 200 (Conversation_body \<lparr>conv_id = uuid1, conv_createdAt = 5\<rparr>
        [attributes (row ''p1'' uuid1 ''un'' 10), attributes (row ''p2'' uuid1 ''dos'' 20),
         attributes (row ''p3'' uuid1 ''tres'' 30)])]"
proof -
  have 1: "validateUUID sample_env uuid1" using uuid1_ok by (simp add: sample_env_simps)
  have 2: "Conversation_findByPk shuffled_store uuid1 = Some \<lparr>conv_id = uuid1, conv_createdAt = 5\<rparr>"
    by (simp add: Conversation_findByPk_def shuffled_store_def)
  have 3: "included_prompts shuffled_store uuid1 =
      [attributes (row ''p1'' uuid1 ''un'' 10), attributes (row ''p2'' uuid1 ''dos'' 20),
       attributes (row ''p3'' uuid1 ''tres'' 30)]"
    by (simp add: included_prompts_def shuffled_store_def row_def attributes_def uuid1_def)
  from conversation_prompts_by_creation_time [OF 1 2] have
    "res_log (getConversation sample_env shuffled_store uuid1) =
       [Respond 200 (Conversation_body \<lparr>conv_id = uuid1, conv_createdAt = 5\<rparr> (included_prompts shuffled_store uuid1))]"
    by (rule conjunct1)
  with 3 show ?thesis by simp
qed

section \<open>The streaming relay\<close>

lemma concat_fragments: "concat (fragments cs) = concat (map fragment cs)"
  by (induction cs) (simp_all add: fragments_def)

lemma dispatch_streaming:
  assumes "\<not> escaped st" "streaming c"
  shows "dispatch cid pid st (Data c) =
           st\<lparr>fullResponse := fullResponse st @ fragment c,
              relay_log := relay_log st @ map (\<lambda>t. Write (Chunk_event cid pid t)) (fragments [c])\<rparr>"
  using assms
  by (cases c rule: fragment.cases) (simp_all add: dispatch_def on_data_def fragments_def)

lemma run_streaming:
  assumes "\<not> escaped st" "\<forall>c\<in>set body. streaming c"
  shows "foldl (dispatch cid pid) st (map Data body) =
           st\<lparr>fullResponse := fullResponse st @ concat (map fragment body),
              relay_log := relay_log st @ map (\<lambda>t. Write (Chunk_event cid pid t)) (fragments body)\<rparr>"
  using assms
proof (induction body arbitrary: st)
  case Nil
  then show ?case by (simp add: fragments_def)
next
  case (Cons c body)
  let ?st = "dispatch cid pid st (Data c)"
  from Cons.prems have d: "?st = st\<lparr>fullResponse := fullResponse st @ fragment c,
      relay_log := relay_log st @ map (\<lambda>t. Write (Chunk_event cid pid t)) (fragments [c])\<rparr>"
    by (simp add: dispatch_streaming)
  with Cons.prems have "\<not> escaped ?st" by simp
  with Cons.IH [of ?st] Cons.prems(2)
  have "foldl (dispatch cid pid) ?st (map Data body) =
      ?st\<lparr>fullResponse := fullResponse ?st @ concat (map fragment body),
         relay_log := relay_log ?st @ map (\<lambda>t. Write (Chunk_event cid pid t)) (fragments body)\<rparr>"
    by simp
  with d show ?case by (simp add: fragments_def)
qed

lemma dispatch_completing:
  assumes "\<not> escaped st" "completing c"
  shows "dispatch cid pid st (Data c) =
           st\<lparr>fullResponse := fullResponse st @ fragment c,
              relay_log := relay_log st @ map (\<lambda>t. Write (Chunk_event cid pid t)) (fragments [c]),
              awaiting := awaiting st @ [fullResponse st @ fragment c]\<rparr>"
  using assms
  by (cases c rule: fragment.cases) (simp_all add: dispatch_def on_data_def fragments_def)

lemma settle_one:
  assumes "\<not> escaped st" "awaiting st = [v]"
  shows "settle_pending cid pid st =
           st\<lparr>relay_store := Prompt_update pid v (relay_store st), awaiting := [],
              relay_log := relay_log st @ [Write (End_event cid pid (fullResponse st)), End_call]\<rparr>"
  using assms by (simp add: settle_pending_def dispatch_def on_update_settled_def)

lemma session_state:
  assumes "\<not> escaped st" "awaiting st = []" "\<forall>c\<in>set body. streaming c" "completing final"
  shows "settle_pending cid pid (foldl (dispatch cid pid) st (map Data (body @ [final]))) =
           st\<lparr>fullResponse := fullResponse st @ concat (map fragment (body @ [final])),
              relay_log := relay_log st
                @ map (\<lambda>t. Write (Chunk_event cid pid t)) (fragments (body @ [final]))
                @ [Write (End_event cid pid (fullResponse st @ concat (map fragment (body @ [final])))), End_call],
              relay_store := Prompt_update pid (fullResponse st @ concat (map fragment (body @ [final]))) (relay_store st)\<rparr>"
proof -
  let ?st1 = "foldl (dispatch cid pid) st (map Data body)"
  have 1: "?st1 = st\<lparr>fullResponse := fullResponse st @ concat (map fragment body),
      relay_log := relay_log st @ map (\<lambda>t. Write (Chunk_event cid pid t)) (fragments body)\<rparr>"
    using assms(1,3) by (rule run_streaming)
  let ?st2 = "dispatch cid pid ?st1 (Data final)"
  from 1 assms(1) have e1: "\<not> escaped ?st1" by simp
  have 2: "?st2 = ?st1\<lparr>fullResponse := fullResponse ?st1 @ fragment final,
      relay_log := relay_log ?st1 @ map (\<lambda>t. Write (Chunk_event cid pid t)) (fragments [final]),
      awaiting := awaiting ?st1 @ [fullResponse ?st1 @ fragment final]\<rparr>"
    using e1 assms(4) by (rule dispatch_completing)
  from 1 2 assms(1,2) have e2: "\<not> escaped ?st2" "awaiting ?st2 = [fullResponse st @ concat (map fragment body) @ fragment final]"
    by simp_all
  have "settle_pending cid pid ?st2 =
      ?st2\<lparr>relay_store := Prompt_update pid (fullResponse st @ concat (map fragment body) @ fragment final) (relay_store ?st2),
         awaiting := [],
         relay_log := relay_log ?st2 @ [Write (End_event cid pid (fullResponse ?st2)), End_call]\<rparr>"
    using e2 by (rule settle_one)
  with 1 2 assms(2) show ?thesis by (simp add: fragments_def)
qed

lemma received_writes: "received (map Write evs @ rest) = evs @ received rest"
  by (induction evs) simp_all

lemma Prompts_update_created:
  "prompt_id p = pid \<Longrightarrow>
   Prompts (Prompt_update pid v (Prompt_create s p)) =
     Prompts (Prompt_update pid v s) @ [p\<lparr>prompt_response := v\<rparr>]"
  by (simp add: Prompt_update_def Prompt_create_def)

text \<open>
  A session in which every chunk parses and the last one, and only the last one, is marked
  \<open>done\<close>: the whole result of the handler.
\<close>

lemma streaming_session_result:
  assumes "post_generate_stream e model prompt = Stream (map Data (body @ [final]))"
    and "\<forall>c\<in>set body. streaming c" and "completing final"
  shows "handleStreamingResponse e s conv prompt model =
     \<lparr>store_after = Prompt_update (new_prompt_id e) (concat (map fragment (body @ [final])))
        (Prompt_create s
          \<lparr>prompt_id = new_prompt_id e, prompt_text = trim prompt, prompt_response = [],
           prompt_model = model, prompt_stream = True, prompt_ConversationId = conv_id conv,
           prompt_createdAt = now e\<rparr>),
      res_log = map Write
         (Start_event (conv_id conv) (new_prompt_id e) (trim prompt)
          # map (Chunk_event (conv_id conv) (new_prompt_id e)) (fragments (body @ [final]))
          @ [End_event (conv_id conv) (new_prompt_id e) (concat (map fragment (body @ [final])))])
         @ [End_call],
      upstream_calls = 1, uncaught = False\<rparr>"
proof -
  let ?p = "\<lparr>prompt_id = new_prompt_id e, prompt_text = trim prompt, prompt_response = [],
           prompt_model = model, prompt_stream = True, prompt_ConversationId = conv_id conv,
           prompt_createdAt = now e\<rparr>"
  let ?st0 = "\<lparr>relay_store = Prompt_create s ?p, fullResponse = [],
      relay_log = [Write (Start_event (conv_id conv) (new_prompt_id e) (trim prompt))],
      awaiting = [], escaped = False\<rparr>"
  have "\<not> escaped ?st0" "awaiting ?st0 = []" by simp_all
  from session_state [OF this assms(2,3), of "conv_id conv" "new_prompt_id e"] assms(1)
  show ?thesis
    by (simp add: handleStreamingResponse_def Let_def comp_def)
qed

text \<open>
  C1 as claimed, exactly N chunk events for N upstream chunks, fails: a chunk with an empty
  \<open>response\<close> is not forwarded. Four chunks, the last marked \<open>done\<close>, two of them with an
  empty fragment: the client receives two chunk events.
\<close>

theorem fewer_chunk_events_counterexample:
  "post_generate_stream (streams (map Data chunks4)) ''m'' ''Saluda'' = Stream (map Data chunks4)
   \<and> length chunks4 = 4
   \<and> received (res_log (handleStreamingResponse (streams (map Data chunks4)) empty_store conv1 ''Saluda'' ''m'')) =
       [Start_event uuid1 (new_prompt_id sample_env) ''Saluda'',
        Chunk_event uuid1 (new_prompt_id sample_env) ''Hola'',
        Chunk_event uuid1 (new_prompt_id sample_env) '' mon'',
        End_event uuid1 (new_prompt_id sample_env) ''Hola mon'']"
proof -
  have t: "trim ''Saluda'' = ''Saluda''" by code_simp
  then show ?thesis
    by (simp add: chunks4_def streams_simps handleStreamingResponse_def Let_def dispatch_def
        on_data_def on_update_settled_def settle_pending_def conv1_def)
qed

text \<open>
  C1 (amended). In a streaming session in which the upstream delivers its chunks and marks
  the last one \<open>done\<close>, the client receives the start event, then one chunk event for each
  chunk with a non-empty fragment, in upstream order, then exactly one end event with the
  whole text, and the connection is closed after it; the \<open>Prompt\<close> row of the session
  has the concatenation of all fragments, in upstream order, as its response.
\<close>

theorem streaming_session_relays_fragments:
  assumes "post_generate_stream e model prompt = Stream (map Data (body @ [final]))"
    and "\<forall>c\<in>set body. streaming c" and "completing final"
  shows "received (res_log (handleStreamingResponse e s conv prompt model)) =
           Start_event (conv_id conv) (new_prompt_id e) (trim prompt)
           # map (Chunk_event (conv_id conv) (new_prompt_id e)) (fragments (body @ [final]))
           @ [End_event (conv_id conv) (new_prompt_id e) (concat (map fragment (body @ [final])))]
       \<and> res_log (handleStreamingResponse e s conv prompt model) =
           map Write (received (res_log (handleStreamingResponse e s conv prompt model))) @ [End_call]
       \<and> last (Prompts (store_after (handleStreamingResponse e s conv prompt model))) =
           \<lparr>prompt_id = new_prompt_id e, prompt_text = trim prompt,
            prompt_response = concat (map fragment (body @ [final])),
            prompt_model = model, prompt_stream = True, prompt_ConversationId = conv_id conv,
            prompt_createdAt = now e\<rparr>
       \<and> \<not> uncaught (handleStreamingResponse e s conv prompt model)"
proof -
  note r = streaming_session_result [OF assms, of s conv]
  have rc: "received (res_log (handleStreamingResponse e s conv prompt model)) =
           Start_event (conv_id conv) (new_prompt_id e) (trim prompt)
           # map (Chunk_event (conv_id conv) (new_prompt_id e)) (fragments (body @ [final]))
           @ [End_event (conv_id conv) (new_prompt_id e) (concat (map fragment (body @ [final])))]"
    unfolding r by (simp only: result.simps received_writes) simp
  have lg: "res_log (handleStreamingResponse e s conv prompt model) =
           map Write (received (res_log (handleStreamingResponse e s conv prompt model))) @ [End_call]"
    unfolding rc unfolding r by simp
  have st: "last (Prompts (store_after (handleStreamingResponse e s conv prompt model))) =
           \<lparr>prompt_id = new_prompt_id e, prompt_text = trim prompt,
            prompt_response = concat (map fragment (body @ [final])),
            prompt_model = model, prompt_stream = True, prompt_ConversationId = conv_id conv,
            prompt_createdAt = now e\<rparr>"
    unfolding r by (simp add: Prompts_update_created)
  have "\<not> uncaught (handleStreamingResponse e s conv prompt model)"
    unfolding r by simp
  with rc lg st show ?thesis by blast
qed

theorem streaming_session_relays_fragments_witness:
  "received (res_log (handleStreamingResponse
       (streams (map Data ([Parsed (Some ''Hola'') False, Parsed None False, Parsed (Some '' mon'') False]
          @ [Parsed (Some ''!'') True])))
       empty_store conv1 ''Saluda'' ''m'')) =
     [Start_event uuid1 (new_prompt_id sample_env) ''Saluda'',
      Chunk_event uuid1 (new_prompt_id sample_env) ''Hola'',
      Chunk_event uuid1 (new_prompt_id sample_env) '' mon'',
      Chunk_event uuid1 (new_prompt_id sample_env) ''!'',
      End_event uuid1 (new_prompt_id sample_env) ''Hola mon!'']"
proof -
  let ?body = "[Parsed (Some ''Hola'') False, Parsed None False, Parsed (Some '' mon'') False]"
  let ?final = "Parsed (Some ''!'') True"
  have 1: "post_generate_stream (streams (map Data (?body @ [?final]))) ''m'' ''Saluda''
      = Stream (map Data (?body @ [?final]))"
    by (simp add: streams_simps)
  have 2: "\<forall>c\<in>set ?body. streaming c" by simp
  have 3: "completing ?final" by simp
  have t: "trim ''Saluda'' = ''Saluda''" by code_simp
  from streaming_session_relays_fragments [OF 1 2 3, of empty_store conv1] t
  show ?thesis by (simp add: streams_simps conv1_def fragments_def)
qed

text \<open>
  C10 as claimed, for every streaming session, fails in its part on the persisted text:
  the response is written only when a chunk is marked \<open>done\<close>. A stream of two chunks
  that ends without that mark forwards both fragments and leaves the response of the
  \<open>Prompt\<close> empty.
\<close>

theorem unfinished_stream_counterexample:
  "received (res_log (handleStreamingResponse
       (streams [Data (Parsed (Some ''Bon'') False), Data (Parsed (Some '' dia'') False)])
       empty_store conv1 ''Saluda'' ''m'')) =
     [Start_event uuid1 (new_prompt_id sample_env) ''Saluda'',
      Chunk_event uuid1 (new_prompt_id sample_env) ''Bon'',
      Chunk_event uuid1 (new_prompt_id sample_env) '' dia'']
   \<and> map prompt_response (Prompts (store_after (handleStreamingResponse
       (streams [Data (Parsed (Some ''Bon'') False), Data (Parsed (Some '' dia'') False)])
       empty_store conv1 ''Saluda'' ''m''))) = [[]]
   \<and> concat (fragments [Parsed (Some ''Bon'') False, Parsed (Some '' dia'') False]) = ''Bon dia''"
proof -
  have t: "trim ''Saluda'' = ''Saluda''" by code_simp
  then show ?thesis
    by (simp add: streams_simps handleStreamingResponse_def Let_def dispatch_def on_data_def
        settle_pending_def conv1_def Prompt_create_def empty_store_def fragments_def)
qed

text \<open>
  C10 (amended). In any state of a session, a chunk without a \<open>response\<close> field or with an
  empty one writes nothing to the client and leaves the accumulator as it is. In a session
  that completes (every chunk parses and the last one, and only the last one, is marked
  \<open>done\<close>), the persisted response is the concatenation of the non-empty fragments
  only, the chunk events are those of the non-empty fragments, and they are fewer than the
  upstream chunks as soon as one chunk has no fragment or an empty one.
\<close>

theorem empty_fragments_are_skipped:
  assumes "post_generate_stream e model prompt = Stream (map Data (body @ [final]))"
    and "\<forall>c\<in>set body. streaming c" and "completing final"
  shows "relay_log (dispatch cid pid st (Data (Parsed None d))) = relay_log st
       \<and> fullResponse (dispatch cid pid st (Data (Parsed None d))) = fullResponse st
       \<and> relay_log (dispatch cid pid st (Data (Parsed (Some []) d))) = relay_log st
       \<and> fullResponse (dispatch cid pid st (Data (Parsed (Some []) d))) = fullResponse st
       \<and> prompt_response (last (Prompts (store_after (handleStreamingResponse e s conv prompt model))))
           = concat (fragments (body @ [final]))
       \<and> filter is_chunk_event (received (res_log (handleStreamingResponse e s conv prompt model)))
           = map (Chunk_event (conv_id conv) (new_prompt_id e)) (fragments (body @ [final]))
       \<and> length (fragments (body @ [final])) \<le> length (body @ [final])
       \<and> ((\<exists>c\<in>set (body @ [final]). fragment c = [])
            \<longrightarrow> length (fragments (body @ [final])) < length (body @ [final]))"
proof -
  note r = streaming_session_result [OF assms, of s conv]
  have 1: "relay_log (dispatch cid pid st (Data (Parsed None d))) = relay_log st"
    "fullResponse (dispatch cid pid st (Data (Parsed None d))) = fullResponse st"
    "relay_log (dispatch cid pid st (Data (Parsed (Some []) d))) = relay_log st"
    "fullResponse (dispatch cid pid st (Data (Parsed (Some []) d))) = fullResponse st"
    by (simp_all add: dispatch_def on_data_def)
  have 2: "prompt_response (last (Prompts (store_after (handleStreamingResponse e s conv prompt model))))
           = concat (fragments (body @ [final]))"
    unfolding r by (simp add: Prompts_update_created concat_fragments)
  have f: "filter is_chunk_event (map (Chunk_event a b) ts) = map (Chunk_event a b) ts" for a b ts
    by (induction ts) simp_all
  have 3: "filter is_chunk_event (received (res_log (handleStreamingResponse e s conv prompt model)))
           = map (Chunk_event (conv_id conv) (new_prompt_id e)) (fragments (body @ [final]))"
    unfolding r by (simp only: result.simps received_writes) (simp add: f)
  have 4: "length (fragments (body @ [final])) \<le> length (body @ [final])"
    unfolding fragments_def by (metis length_filter_le length_map)
  have 5: "length (fragments (body @ [final])) < length (body @ [final])"
    if "\<exists>c\<in>set (body @ [final]). fragment c = []"
  proof -
    from that obtain c where "c \<in> set (body @ [final])" "fragment c = []" by blast
    then have "[] \<in> set (map fragment (body @ [final]))" by force
    then have "length (filter (\<lambda>t. t \<noteq> []) (map fragment (body @ [final]))) < length (map fragment (body @ [final]))"
      by (intro length_filter_less) auto
    then show ?thesis by (simp add: fragments_def)
  qed
  from 1 2 3 4 5 show ?thesis by blast
qed

theorem empty_fragments_are_skipped_witness:
  "prompt_response (last (Prompts (store_after (handleStreamingResponse
       (streams (map Data ([Parsed (Some ''Bon'') False, Parsed (Some []) False, Parsed None False,
          Parsed (Some '' dia'') False] @ [Parsed (Some []) True])))
       empty_store conv1 ''Saluda'' ''m'')))) = ''Bon dia''
   \<and> filter is_chunk_event (received (res_log (handleStreamingResponse
       (streams (map Data ([Parsed (Some ''Bon'') False, Parsed (Some []) False, Parsed None False,
          Parsed (Some '' dia'') False] @ [Parsed (Some []) True])))
       empty_store conv1 ''Saluda'' ''m''))) =
       [Chunk_event uuid1 (new_prompt_id sample_env) ''Bon'', Chunk_event uuid1 (new_prompt_id sample_env) '' dia'']"
proof -
  let ?body = "[Parsed (Some ''Bon'') False, Parsed (Some []) False, Parsed None False, Parsed (Some '' dia'') False]"
  let ?final = "Parsed (Some []) True"
  have 1: "post_generate_stream (streams (map Data (?body @ [?final]))) ''m'' ''Saluda''
      = Stream (map Data (?body @ [?final]))"
    by (simp add: streams_simps)
  have 2: "\<forall>c\<in>set ?body. streaming c" by simp
  have 3: "completing ?final" by simp
  from empty_fragments_are_skipped [OF 1 2 3, of _ _ _ _ empty_store conv1]
  show ?thesis by (simp add: streams_simps conv1_def fragments_def)
qed

subsection \<open>Errors of the upstream\<close>

text \<open>
  When the call cannot be opened, the handler reports it: the error event is written, the
  response is ended and the \<open>Prompt\<close> keeps its empty response.
\<close>

lemma refused_stream_reports_error:
  assumes "post_generate_stream e model prompt = Refused"
  shows "res_log (handleStreamingResponse e s conv prompt model) =
           [Write (Start_event (conv_id conv) (new_prompt_id e) (trim prompt)),
            Write (Error_event stream_error_message), End_call]
       \<and> prompt_response (last (Prompts (store_after (handleStreamingResponse e s conv prompt model)))) = []"
  using assms by (simp add: handleStreamingResponse_def Let_def Prompt_create_def)

lemma dispatch_no_error_event:
  "Write (Error_event m) \<in> set (relay_log (dispatch cid pid st ev)) \<Longrightarrow> Write (Error_event m) \<in> set (relay_log st)"
  by (auto simp: dispatch_def on_data_def on_update_settled_def Let_def
      split: if_splits loop_event.splits parsedChunk.splits option.splits list.splits)

lemma run_no_error_event:
  "Write (Error_event m) \<in> set (relay_log (foldl (dispatch cid pid) st evs)) \<Longrightarrow> Write (Error_event m) \<in> set (relay_log st)"
  by (induction evs arbitrary: st) (auto dest: dispatch_no_error_event)

text \<open>Once the stream is open, no run of the session writes an error event.\<close>

lemma open_stream_writes_no_error_event:
  assumes "post_generate_stream e model prompt = Stream evs"
  shows "Write (Error_event m) \<notin> set (res_log (handleStreamingResponse e s conv prompt model))"
proof
  define st0 where "st0 = \<lparr>relay_store = Prompt_create s
      \<lparr>prompt_id = new_prompt_id e, prompt_text = trim prompt, prompt_response = [],
       prompt_model = model, prompt_stream = True, prompt_ConversationId = conv_id conv,
       prompt_createdAt = now e\<rparr>,
     fullResponse = [],
     relay_log = [Write (Start_event (conv_id conv) (new_prompt_id e) (trim prompt))],
     awaiting = [], escaped = False\<rparr>"
  define st1 where "st1 = foldl (dispatch (conv_id conv) (new_prompt_id e)) st0 evs"
  have "res_log (handleStreamingResponse e s conv prompt model) =
      relay_log (foldl (dispatch (conv_id conv) (new_prompt_id e)) st1
        (replicate (length (awaiting st1)) UpdateSettled))"
    using assms by (simp add: handleStreamingResponse_def Let_def settle_pending_def st0_def st1_def)
  moreover assume "Write (Error_event m) \<in> set (res_log (handleStreamingResponse e s conv prompt model))"
  ultimately have "Write (Error_event m) \<in> set (relay_log st1)"
    using run_no_error_event by metis
  then have "Write (Error_event m) \<in> set (relay_log st0)"
    unfolding st1_def by (rule run_no_error_event)
  then show False by (simp add: st0_def)
qed

text \<open>
  C3. The upstream delivers one chunk and then its stream emits \<open>error\<close>. The listener
  throws outside every \<open>try\<close>: the client has received the start event and one chunk
  event, no error event is written, \<open>res.end()\<close> is not called, and the exception
  escapes. The \<open>Prompt\<close> keeps its empty response.
\<close>

theorem stream_error_not_reported:
  "res_log (registerPrompt (streams [Data (Parsed (Some ''Hola'') False), StreamError]) empty_store
       (asks None (Some ''Saluda'') True)) =
     [Write (Start_event (new_conversation_id sample_env) (new_prompt_id sample_env) ''Saluda''),
      Write (Chunk_event (new_conversation_id sample_env) (new_prompt_id sample_env) ''Hola'')]
   \<and> uncaught (registerPrompt (streams [Data (Parsed (Some ''Hola'') False), StreamError]) empty_store
       (asks None (Some ''Saluda'') True))
   \<and> map prompt_response (Prompts (store_after (registerPrompt
       (streams [Data (Parsed (Some ''Hola'') False), StreamError]) empty_store
       (asks None (Some ''Saluda'') True)))) = [[]]"
proof -
  have t: "trim ''Saluda'' = ''Saluda''" by code_simp
  then show ?thesis
    by (simp add: registerPrompt_def asks_def respond_to_def streams_simps handleStreamingResponse_def
        Let_def dispatch_def on_data_def settle_pending_def Conversation_create_def Prompt_create_def
        empty_store_def)
qed

end
